theory Spec2Isabelle
  imports Main "HOL-Library.Word" "HOL-Library.AList" "HOL-Library.Multiset"
begin

section \<open>Protocol client: path construction\<close>

text \<open>
  Go strings are byte sequences, so a Go \<open>string\<close> is a \<^typ>\<open>string\<close> (a list of 8-bit
  characters) here. The three library functions used by \<open>encodeJobPath\<close> are modelled
  after the Go standard library: \<open>strings.Split\<close> and \<open>strings.Join\<close> (with the
  one-byte separator the caller passes to \<open>Split\<close>) and \<open>url.PathEscape\<close>.
\<close>

fun Split :: "string \<Rightarrow> char \<Rightarrow> string list" where
  "Split [] sep = [[]]"
| "Split (c # cs) sep =
     (if c = sep then [] # Split cs sep
      else (case Split cs sep of
              p # ps \<Rightarrow> (c # p) # ps
            | [] \<Rightarrow> [[c]]))"

fun Join :: "string list \<Rightarrow> string \<Rightarrow> string" where
  "Join [] sep = []"
| "Join [a] sep = a"
| "Join (a # b # rest) sep = a @ sep @ Join (b # rest) sep"

text \<open>
  \<open>url.PathEscape\<close> is \<open>escape(s, encodePathSegment)\<close>: ASCII letters and digits and
  the marks \<open>- _ . ~\<close> are kept; of the reserved characters \<open>$ & + : = @\<close> are kept and
  \<open>/ ; , ?\<close> are escaped; every other byte is escaped as \<open>%XX\<close> with upper-case
  hexadecimal digits.
\<close>

definition upperhex :: "nat \<Rightarrow> char" where
  "upperhex n = ''0123456789ABCDEF'' ! (n mod 16)"

definition shouldEscape :: "char \<Rightarrow> bool" where
  "shouldEscape c =
     (let n = (of_char c :: nat) in
      if (97 \<le> n \<and> n \<le> 122) \<or> (65 \<le> n \<and> n \<le> 90) \<or> (48 \<le> n \<and> n \<le> 57) then False
      else if c \<in> set ''-_.~'' then False
      else if c \<in> set ''$&+,/:;=?@'' then c \<in> set ''/;,?''
      else True)"

definition escapeByte :: "char \<Rightarrow> string" where
  "escapeByte c =
     (if shouldEscape c
      then [CHR ''%'', upperhex (of_char c div 16), upperhex (of_char c mod 16)]
      else [c])"

definition PathEscape :: "string \<Rightarrow> string" where
  "PathEscape s = concat (map escapeByte s)"

text \<open>
  \<open>encodeJobPath\<close> (client.go): split the name on \<open>/\<close>, allocate a slice of the same
  length, fill it slot by slot in a \<open>for i, part := range parts\<close> loop, and join with
  \<open>/job/\<close>.
\<close>

definition encodeJobPath :: "string \<Rightarrow> string" where
  "encodeJobPath jobName =
     (let parts = Split jobName CHR ''/'';
          encoded = replicate (length parts) [];
          encoded' = fold (\<lambda>(i, part) enc. enc[i := PathEscape part]) (enumerate 0 parts) encoded
      in Join encoded' ''/job/'')"

text \<open>The specification's formula, written as the claim words it.\<close>

definition encodeJobPath_spec :: "string \<Rightarrow> string" where
  "encodeJobPath_spec s = Join (map PathEscape (Split s CHR ''/'')) ''/job/''"


section \<open>Configuration\<close>

text \<open>
  The configuration record of package \<open>config\<close>. Go's \<open>int\<close> is a 64-bit two's
  complement integer on the platforms the program is built for, so the numeric
  settings are 64-bit words (read with \<^const>\<open>sint\<close>).
\<close>

type_synonym go_int = "64 word"

record Profile =
  BaseURL :: string
  Username :: string
  APIToken :: string
  InsecureSkipTLSVerify :: bool
  TimeoutSeconds :: go_int
  AutoRefreshSeconds :: go_int
  MaxBuildsPerJob :: go_int
  MaxLogBytes :: go_int
  RateLimitRPS :: go_int

record Config =
  Profile :: Profile

definition DefaultConfig :: Config where
  "DefaultConfig =
     \<lparr>Profile = \<lparr>BaseURL = [], Username = [], APIToken = [],
                 InsecureSkipTLSVerify = False, TimeoutSeconds = 15,
                 AutoRefreshSeconds = 10, MaxBuildsPerJob = 200,
                 MaxLogBytes = 200000, RateLimitRPS = 5\<rparr>\<rparr>"

definition IsConfigured :: "Config \<Rightarrow> bool" where
  "IsConfigured c \<longleftrightarrow>
     BaseURL (Profile c) \<noteq> [] \<and> Username (Profile c) \<noteq> [] \<and> APIToken (Profile c) \<noteq> []"

section \<open>Protocol client: requests and crumb negotiation\<close>

text \<open>
  Every error return of \<open>doRequest\<close> and \<open>fetchCrumb\<close> (client.go) is a constructor.
\<close>

datatype error =
    ConfigIsNil
  | RateLimiterError
  | CreateRequestError
  | TransportError
  | AuthenticationFailed
  | AccessForbidden
  | CrumbIssuerStatus int
  | CrumbDecodeError

type_synonym header = "(string \<times> string) list"

record request =
  Method :: string
  URL :: string
  Header :: header

record response =
  StatusCode :: int
  Body :: string

datatype outcome = Failed | Replied response

text \<open>
  What the client does not decide itself is a parameter: whether the \<open>n\<close>-th call of
  \<open>limiter.Wait\<close> returns before the deadline, whether \<open>http.NewRequestWithContext\<close>
  accepts the verb and URL, what \<open>httpClient.Do\<close> yields for a request (given the
  requests sent before it, so that the server may answer the same request differently
  over time), how \<open>encoding/json\<close> decodes the crumb issuer's body into the pair
  (\<open>crumb\<close>, \<open>crumbRequestField\<close>), how \<open>http.Header\<close> canonicalises a field name,
  and the value \<open>SetBasicAuth\<close> computes.
\<close>

record env =
  limiterWait :: "nat \<Rightarrow> bool"
  newRequestOk :: "string \<Rightarrow> string \<Rightarrow> bool"
  roundTrip :: "request list \<Rightarrow> request \<Rightarrow> outcome"
  decodeCrumb :: "string \<Rightarrow> (string \<times> string) option"
  canonicalKey :: "string \<Rightarrow> string"
  basicAuth :: "string \<Rightarrow> string \<Rightarrow> string"

text \<open>
  The \<open>Client\<close> struct. The fields \<open>waits\<close> (calls of \<open>limiter.Wait\<close> so far) and
  \<open>sent\<close> (the requests handed to \<open>httpClient.Do\<close>, oldest first) are not in the Go
  struct: they record what the client has done on the limiter and on the wire.
\<close>

record Client =
  baseURL :: string
  username :: string
  apiToken :: string
  crumb :: string
  crumbField :: string
  crumbTested :: bool
  waits :: nat
  sent :: "request list"

definition MethodGet :: string where
  "MethodGet = ''GET''"

definition MethodPost :: string where
  "MethodPost = ''POST''"

definition crumbIssuerPath :: string where
  "crumbIssuerPath = ''/crumbIssuer/api/json''"

definition HasSuffix :: "string \<Rightarrow> string \<Rightarrow> bool" where
  "HasSuffix s suffix \<longleftrightarrow>
     length suffix \<le> length s \<and> drop (length s - length suffix) s = suffix"

definition TrimSuffix :: "string \<Rightarrow> string \<Rightarrow> string" where
  "TrimSuffix s suffix =
     (if HasSuffix s suffix then take (length s - length suffix) s else s)"

definition NewClient :: "Config option \<Rightarrow> error + Client" where
  "NewClient cfg =
     (case cfg of
        None \<Rightarrow> Inl ConfigIsNil
      | Some cfg \<Rightarrow>
          Inr \<lparr>baseURL = TrimSuffix (BaseURL (Profile cfg)) ''/'',
               username = Username (Profile cfg),
               apiToken = APIToken (Profile cfg),
               crumb = [], crumbField = [], crumbTested = False,
               waits = 0, sent = []\<rparr>)"

definition Header_Set :: "env \<Rightarrow> string \<Rightarrow> string \<Rightarrow> header \<Rightarrow> header" where
  "Header_Set E k v h = AList.update (canonicalKey E k) v h"

definition Header_Get :: "env \<Rightarrow> header \<Rightarrow> string \<Rightarrow> string option" where
  "Header_Get E h k = map_of h (canonicalKey E k)"

text \<open>
  The request \<open>doRequest\<close> builds: basic authentication, then the crumb header when the
  verb is not GET and both cached crumb strings are non-empty, then \<open>Accept\<close>.
\<close>

definition newRequest :: "env \<Rightarrow> Client \<Rightarrow> string \<Rightarrow> string \<Rightarrow> request" where
  "newRequest E c meth path =
     (let h0 = Header_Set E ''Authorization'' (basicAuth E (username c) (apiToken c)) [];
          h1 = (if meth \<noteq> MethodGet \<and> crumb c \<noteq> [] \<and> crumbField c \<noteq> []
                then Header_Set E (crumbField c) (crumb c) h0 else h0);
          h2 = Header_Set E ''Accept'' ''application/json'' h1
      in \<lparr>Method = meth, URL = baseURL c @ path, Header = h2\<rparr>)"

text \<open>
  \<open>doRequest\<close> and \<open>fetchCrumb\<close> call each other: \<open>doRequest\<close> calls \<open>fetchCrumb\<close> on
  a 403 for a non-GET verb while \<open>crumbTested\<close> is false, and calls itself again when
  \<open>fetchCrumb\<close> returns no error; \<open>fetchCrumb\<close> sets \<open>crumbTested\<close> and calls
  \<open>doRequest\<close> with GET on the crumb issuer path. The body passed by every caller is
  \<open>nil\<close> and is left out.
\<close>

function doRequest :: "env \<Rightarrow> Client \<Rightarrow> string \<Rightarrow> string \<Rightarrow> Client \<times> (error + response)"
  and fetchCrumb :: "env \<Rightarrow> Client \<Rightarrow> Client \<times> error option"
where
  "doRequest E c meth path =
     (let c1 = c\<lparr>waits := Suc (waits c)\<rparr> in
      if \<not> limiterWait E (waits c) then (c1, Inl RateLimiterError)
      else if \<not> newRequestOk E meth (baseURL c @ path) then (c1, Inl CreateRequestError)
      else
        let req = newRequest E c1 meth path;
            c2 = c1\<lparr>sent := sent c1 @ [req]\<rparr>
        in case roundTrip E (sent c1) req of
             Failed \<Rightarrow> (c2, Inl TransportError)
           | Replied resp \<Rightarrow>
               if StatusCode resp = 401 then (c2, Inl AuthenticationFailed)
               else if StatusCode resp = 403 then
                 (if \<not> crumbTested c2 \<and> meth \<noteq> MethodGet then
                    (case fetchCrumb E c2 of
                       (c3, None) \<Rightarrow> doRequest E c3 meth path
                     | (c3, Some e) \<Rightarrow> (c3, Inl AccessForbidden))
                  else (c2, Inl AccessForbidden))
               else (c2, Inr resp))"
| "fetchCrumb E c =
     (let c1 = c\<lparr>crumbTested := True\<rparr> in
      case doRequest E c1 MethodGet crumbIssuerPath of
        (c2, Inl e) \<Rightarrow> (c2, Some e)
      | (c2, Inr resp) \<Rightarrow>
          if StatusCode resp \<noteq> 200 then (c2, Some (CrumbIssuerStatus (StatusCode resp)))
          else (case decodeCrumb E (Body resp) of
                  None \<Rightarrow> (c2, Some CrumbDecodeError)
                | Some (cr, fld) \<Rightarrow> (c2\<lparr>crumb := cr, crumbField := fld\<rparr>, None)))"
  by pat_completeness auto

text \<open>
  The recursion ends: \<open>fetchCrumb\<close> only issues a GET, which never negotiates, and the
  client it returns has \<open>crumbTested\<close> set, so the retry cannot negotiate again.
\<close>

lemma crumbTested_kept:
  "doRequest_fetchCrumb_dom (Inl (E, c, m, p)) \<Longrightarrow> crumbTested c \<Longrightarrow>
     crumbTested (fst (doRequest E c m p))"
  "doRequest_fetchCrumb_dom (Inr (E, c)) \<Longrightarrow> crumbTested (fst (fetchCrumb E c))"
proof (induct rule: doRequest_fetchCrumb.pinduct)
  case (1 E c meth path)
  then show ?case
    by (simp add: doRequest.psimps Let_def split: outcome.splits)
next
  case (2 E c)
  then show ?case
    by (auto simp add: fetchCrumb.psimps Let_def split: prod.splits sum.splits option.splits)
qed

termination doRequest
proof (relation "measure (\<lambda>x. case x of
          Inl (E, c, m, p) \<Rightarrow> (if crumbTested c \<or> m = MethodGet then 0 else 2)
        | Inr (E, c) \<Rightarrow> 1)", goal_cases)
  case 1
  show ?case by simp
next
  case (2 E c meth path x xa xb x2)
  then show ?case by simp
next
  case (3 E c meth path x xa xb x2 xc y)
  then have "crumbTested (fst (fetchCrumb E xb))"
    by (intro crumbTested_kept(2))
  moreover have "fst (fetchCrumb E xb) = xc"
    using 3 by (metis fst_conv)
  ultimately show ?case using 3 by simp
next
  case (4 E c x)
  then show ?case by simp
qed

declare doRequest.simps [simp del] fetchCrumb.simps [simp del]

text \<open>A sequence of calls of \<open>doRequest\<close> on one client, in order, with their results.\<close>

fun requests :: "env \<Rightarrow> Client \<Rightarrow> (string \<times> string) list \<Rightarrow> Client \<times> (error + response) list" where
  "requests E c [] = (c, [])"
| "requests E c ((m, p) # rest) =
     (case doRequest E c m p of
        (c', r) \<Rightarrow> (case requests E c' rest of (c'', rs) \<Rightarrow> (c'', r # rs)))"

text \<open>The number of requests sent to the crumb issuer endpoint so far.\<close>

definition crumbCalls :: "Client \<Rightarrow> nat" where
  "crumbCalls c = length (filter (\<lambda>r. URL r = baseURL c @ crumbIssuerPath) (sent c))"

text \<open>
  One pass through \<open>doRequest\<close> in which a 403 is returned as it is: what \<open>doRequest\<close>
  does for GET, and for any verb once \<open>crumbTested\<close> is set (shown below).
\<close>

definition oneAttempt :: "env \<Rightarrow> Client \<Rightarrow> string \<Rightarrow> string \<Rightarrow> Client \<times> (error + response)" where
  "oneAttempt E c meth path =
     (let c1 = c\<lparr>waits := Suc (waits c)\<rparr> in
      if \<not> limiterWait E (waits c) then (c1, Inl RateLimiterError)
      else if \<not> newRequestOk E meth (baseURL c @ path) then (c1, Inl CreateRequestError)
      else
        let req = newRequest E c1 meth path;
            c2 = c1\<lparr>sent := sent c1 @ [req]\<rparr>
        in case roundTrip E (sent c1) req of
             Failed \<Rightarrow> (c2, Inl TransportError)
           | Replied resp \<Rightarrow>
               if StatusCode resp = 401 then (c2, Inl AuthenticationFailed)
               else if StatusCode resp = 403 then (c2, Inl AccessForbidden)
               else (c2, Inr resp))"

text \<open>
  \<open>TriggerBuild\<close>, the one caller of \<open>doRequest\<close> with a verb other than GET.
\<close>

datatype trigger_error = RequestError error | UnexpectedStatus int

definition TriggerBuild :: "env \<Rightarrow> Client \<Rightarrow> string \<Rightarrow> Client \<times> trigger_error option" where
  "TriggerBuild E c jobName =
     (let path = ''/job/'' @ encodeJobPath jobName @ ''/build'' in
      case doRequest E c MethodPost path of
        (c', Inl e) \<Rightarrow> (c', Some (RequestError e))
      | (c', Inr resp) \<Rightarrow>
          if StatusCode resp \<noteq> 201 \<and> StatusCode resp \<noteq> 200
          then (c', Some (UnexpectedStatus (StatusCode resp)))
          else (c', None))"

subsection \<open>Mock servers\<close>

text \<open>
  Concrete environments in the style of the repository's mock Jenkins server: a limiter
  that always admits, requests that are always well-formed, field names already
  canonical, and a crumb issuer body that decodes to crumb \<open>abc\<close> for field \<open>X-Crumb\<close>.
\<close>

definition crumbBody :: string where
  "crumbBody = ''{crumb:abc,crumbRequestField:X-Crumb}''"

definition mockEnv :: "(request list \<Rightarrow> request \<Rightarrow> outcome) \<Rightarrow> env" where
  "mockEnv srv =
     \<lparr>limiterWait = (\<lambda>n. True),
      newRequestOk = (\<lambda>meth url. True),
      roundTrip = srv,
      decodeCrumb = (\<lambda>body. if body = crumbBody then Some (''abc'', ''X-Crumb'') else None),
      canonicalKey = (\<lambda>k. k),
      basicAuth = (\<lambda>user token. ''Basic '' @ user @ '':'' @ token)\<rparr>"

definition mockConfig :: Config where
  "mockConfig =
     DefaultConfig\<lparr>Profile := (Profile DefaultConfig)
       \<lparr>BaseURL := ''http://jenkins/'', Username := ''admin'', APIToken := ''secret''\<rparr>\<rparr>"

definition mockClient :: Client where
  "mockClient =
     \<lparr>baseURL = ''http://jenkins'', username = ''admin'', apiToken = ''secret'',
      crumb = [], crumbField = [], crumbTested = False, waits = 0, sent = []\<rparr>"

text \<open>A server that answers 403 to every call, the crumb issuer included.\<close>

definition alwaysForbidden :: "request list \<Rightarrow> request \<Rightarrow> outcome" where
  "alwaysForbidden history req = Replied \<lparr>StatusCode = 403, Body = []\<rparr>"

text \<open>
  A server with CSRF protection: the crumb issuer answers with the given status and the
  crumb body; any other request is answered 201 when it carries \<open>X-Crumb: abc\<close> and
  403 otherwise.
\<close>

definition crumbServer :: "int \<Rightarrow> request list \<Rightarrow> request \<Rightarrow> outcome" where
  "crumbServer issuerStatus history req =
     (if URL req = ''http://jenkins/crumbIssuer/api/json''
      then Replied \<lparr>StatusCode = issuerStatus, Body = crumbBody\<rparr>
      else if map_of (Header req) ''X-Crumb'' = Some ''abc''
      then Replied \<lparr>StatusCode = 201, Body = []\<rparr>
      else Replied \<lparr>StatusCode = 403, Body = []\<rparr>)"

definition buildPath :: string where
  "buildPath = ''/job/demo/build''"

section \<open>Jenkins data and messages\<close>

text \<open>
  The structs of package \<open>models\<close>, with the fields the application logic reads.
  Field names carry the struct's name as a prefix, since one theory cannot have two
  records with a field of the same name. Timestamps and durations are milliseconds.
  A Go \<open>error\<close> value is its message.
\<close>

type_synonym err = string

record RootInfo =
  RootInfo_Mode :: string
  RootInfo_NodeName :: string
  RootInfo_NumExecutors :: int
  RootInfo_UseCrumbs :: bool

record View =
  View_Name :: string
  View_URL :: string

record BuildRef =
  BuildRef_Number :: int
  BuildRef_Result :: string
  BuildRef_Timestamp :: int
  BuildRef_Duration :: int
  BuildRef_URL :: string

record Job =
  Job_Name :: string
  Job_URL :: string
  Job_Color :: string
  Job_LastBuild :: "BuildRef option"

record JobDetail =
  JobDetail_Name :: string
  JobDetail_URL :: string
  JobDetail_Builds :: "BuildRef list"

record Build =
  Build_Number :: int
  Build_URL :: string

record Stage =
  Stage_ID :: string
  Stage_Name :: string

record PipelineRun =
  PipelineRun_Stages :: "Stage list"

record ExecutableRef =
  Exe_URL :: string
  Exe_Number :: int
  Exe_DisplayName :: string
  Exe_FullDisplayName :: string
  Exe_Timestamp :: int
  Exe_EstimatedDuration :: int

record Executor =
  Executor_CurrentExecutable :: ExecutableRef
  Executor_Progress :: int

record Node =
  Node_DisplayName :: string
  Node_Offline :: bool
  Node_NumExecutors :: int
  Node_Executors :: "Executor list"

record QueueItem =
  QueueItem_ID :: int
  QueueItem_Why :: string
  QueueItem_Blocked :: bool

record Queue =
  Queue_Items :: "QueueItem list"

text \<open>
  Go's integer division truncates towards zero; Isabelle's \<open>div\<close> rounds down.
\<close>

definition quot :: "int \<Rightarrow> int \<Rightarrow> int" where
  "quot a b = sgn a * sgn b * (\<bar>a\<bar> div \<bar>b\<bar>)"

definition minInt :: "int \<Rightarrow> int \<Rightarrow> int" where
  "minInt a b = (if a < b then a else b)"

definition maxInt :: "int \<Rightarrow> int \<Rightarrow> int" where
  "maxInt a b = (if a > b then a else b)"

text \<open>
  Indexing a slice panics outside \<open>0 \<le> i < len\<close>, and so does reading a field through
  a nil pointer.
\<close>

datatype panic = IndexOutOfRange | NilPointerDereference

definition index :: "'a list \<Rightarrow> int \<Rightarrow> panic + 'a" where
  "index xs i = (if 0 \<le> i \<and> i < int (length xs) then Inr (xs ! nat i) else Inl IndexOutOfRange)"

definition isAnimatedColor :: "string \<Rightarrow> bool" where
  "isAnimatedColor color \<longleftrightarrow>
     color \<in> set [''blue_anime'', ''red_anime'', ''yellow_anime'', ''grey_anime'',
                  ''aborted_anime'', ''notbuilt_anime'']"

definition Job_IsRunning :: "Job \<Rightarrow> bool" where
  "Job_IsRunning j = isAnimatedColor (Job_Color j)"

text \<open>
  \<open>SortJobsByLastBuild\<close> and \<open>SortBuildsByNumber\<close> sort in place with \<open>sort.Slice\<close>,
  most recent first. \<open>sort.Slice\<close> does not promise an order among equal keys; the
  model is the stable sort.
\<close>

definition lastBuildTimestamp :: "Job \<Rightarrow> int" where
  "lastBuildTimestamp j = (case Job_LastBuild j of None \<Rightarrow> 0 | Some b \<Rightarrow> BuildRef_Timestamp b)"

definition SortJobsByLastBuild :: "Job list \<Rightarrow> Job list" where
  "SortJobsByLastBuild jobs = sort_key (\<lambda>j. - lastBuildTimestamp j) jobs"

definition SortBuildsByNumber :: "BuildRef list \<Rightarrow> BuildRef list" where
  "SortBuildsByNumber builds = sort_key (\<lambda>b. - BuildRef_Number b) builds"

text \<open>
  \<open>ExecutableRef.GetProgress\<close> reads the clock (\<open>time.Since\<close>); the time of the call
  is the parameter \<open>now\<close>.
\<close>

definition GetProgress :: "int \<Rightarrow> ExecutableRef \<Rightarrow> int" where
  "GetProgress now e =
     (if Exe_EstimatedDuration e = 0 \<or> Exe_Timestamp e = 0 then 0
      else let elapsed = now - Exe_Timestamp e;
               progress = quot (elapsed * 100) (Exe_EstimatedDuration e);
               progress = (if progress > 100 then 100 else progress)
           in if progress < 0 then 0 else progress)"

text \<open>
  \<open>strings.ToLower\<close> on ASCII letters (other bytes are kept) and \<open>strings.Contains\<close>,
  as the list filters use them.
\<close>

definition lowerByte :: "char \<Rightarrow> char" where
  "lowerByte c =
     (let n = (of_char c :: nat) in if 65 \<le> n \<and> n \<le> 90 then char_of (n + 32) else c)"

definition ToLower :: "string \<Rightarrow> string" where
  "ToLower s = map lowerByte s"

fun Contains :: "string \<Rightarrow> string \<Rightarrow> bool" where
  "Contains [] substr = (substr = [])"
| "Contains (c # cs) substr =
     (take (length substr) (c # cs) = substr \<or> Contains cs substr)"

text \<open>
  The messages of the event loop. A payload that can be \<open>nil\<close> in Go (a pointer or a
  slice) is an option: \<open>None\<close> is \<open>nil\<close>. \<open>OtherMsg\<close> stands for every message type
  that no \<open>Update\<close> of the application has a case for.
\<close>

record DashboardData =
  dd_RootInfo :: "RootInfo option"
  dd_Nodes :: "Node list option"
  dd_Queue :: "Queue option"
  dd_Jobs :: "Job list option"
  dd_Error :: "err option"

record ViewsData =
  vd_Views :: "View list option"
  vd_Jobs :: "Job list option"
  vd_JobDetail :: "JobDetail option"
  vd_Error :: "err option"

record BuildsData =
  bd_Jobs :: "Job list option"
  bd_JobDetail :: "JobDetail option"
  bd_BuildDetail :: "Build option"
  bd_PipelineRun :: "PipelineRun option"
  bd_LogContent :: string
  bd_Error :: "err option"

datatype msg =
    KeyMsg string
  | WindowSizeMsg int int
  | SpinnerTickMsg
  | SetupCompleteMsg Config
  | ClientReadyMsg Client
  | ClientErrorMsg err
  | AutoRefreshTickMsg
  | TestConnectionResult "err option"
  | DashboardDataMsg DashboardData
  | ViewsDataMsg ViewsData
  | BuildsDataMsg BuildsData
  | OtherMsg

text \<open>
  The commands an \<open>Update\<close> returns. \<open>tea.Batch\<close> of commands is the list of them
  (\<open>nil\<close> commands dropped), so a returned \<open>tea.Cmd\<close> is a list and \<open>nil\<close> is \<open>[]\<close>.
  \<open>Tick d\<close> is \<open>tea.Tick\<close> with duration \<open>d\<close> (nanoseconds) producing
  \<open>AutoRefreshTickMsg\<close>. A fetch command is named after the tab model and the function that
  creates it, with the arguments of that function. \<open>OpenBrowser\<close> records the call of
  \<open>browser.Open\<close>.
\<close>

datatype cmd =
    Quit
  | SpinnerTick
  | Blink
  | InitializeClient
  | Tick "64 word"
  | TestAndSave string string string
  | CompleteSetup Config
  | DashboardFetchRootInfo
  | DashboardFetchNodes
  | DashboardFetchQueue
  | DashboardFetchJobs
  | ViewsFetchViews
  | ViewsFetchViewJobs string
  | ViewsFetchJobDetail string
  | BuildsFetchJobs
  | BuildsFetchJobDetail string
  | BuildsFetchBuildDetail string int
  | BuildsFetchBuildLog string int
  | BuildsFetchStageLog string int string
  | OpenBrowser string

text \<open>
  The search box (a \<open>textinput.Model\<close> of the Bubbles library) is its text. Its
  \<open>Update\<close> on a key is modelled with the cursor at the end: a one-byte key is
  appended, backspace removes the last byte, any other key leaves the text.
\<close>

definition textinput_Update :: "string \<Rightarrow> string \<Rightarrow> string" where
  "textinput_Update key text =
     (if key = ''backspace'' then butlast text
      else if length key = 1 then text @ key
      else text)"

section \<open>Dashboard tab\<close>

datatype DashboardPanel = PanelRunning | PanelNodes | PanelQueue | PanelRecent

record RunningBuildInfo =
  rb_JobName :: string
  rb_BuildNum :: int
  rb_NodeName :: string
  rb_Progress :: int
  rb_URL :: string

record RecentBuildInfo =
  rc_JobName :: string
  rc_BuildNum :: int
  rc_Result :: string
  rc_Color :: string
  rc_Timestamp :: int
  rc_Duration :: int
  rc_URL :: string

record DashboardModel =
  dm_width :: int
  dm_height :: int
  dm_rootInfo :: "RootInfo option"
  dm_nodes :: "Node list"
  dm_queue :: "Queue option"
  dm_runningBuilds :: "RunningBuildInfo list"
  dm_recentBuilds :: "RecentBuildInfo list"
  dm_selectedPanel :: DashboardPanel
  dm_selectedRunning :: int
  dm_selectedNode :: int
  dm_selectedQueueItem :: int
  dm_selectedBuild :: int
  dm_loading :: bool
  dm_lastError :: "err option"
  dm_lastUpdate :: "int option"

definition NewDashboardModel :: "int \<Rightarrow> int \<Rightarrow> DashboardModel" where
  "NewDashboardModel width height =
     \<lparr>dm_width = width, dm_height = height, dm_rootInfo = None, dm_nodes = [],
      dm_queue = None, dm_runningBuilds = [], dm_recentBuilds = [],
      dm_selectedPanel = PanelRunning, dm_selectedRunning = 0, dm_selectedNode = 0,
      dm_selectedQueueItem = 0, dm_selectedBuild = 0, dm_loading = True,
      dm_lastError = None, dm_lastUpdate = None\<rparr>"

definition DashboardModel_LoadData :: "DashboardModel \<Rightarrow> DashboardModel \<times> cmd list" where
  "DashboardModel_LoadData m =
     (m\<lparr>dm_loading := True\<rparr>, [DashboardFetchRootInfo, DashboardFetchNodes, DashboardFetchQueue, DashboardFetchJobs,
       SpinnerTick])"

definition runningOf :: "int \<Rightarrow> Node \<Rightarrow> Executor \<Rightarrow> RunningBuildInfo list" where
  "runningOf now node exec =
     (let e = Executor_CurrentExecutable exec in
      if Exe_URL e \<noteq> [] then
        let jobName = Exe_FullDisplayName e;
            jobName = (if jobName = [] then Exe_DisplayName e else jobName);
            jobName = (if jobName = [] then ''Unknown'' else jobName);
            progress = Executor_Progress exec;
            progress = (if progress = 0 \<and> Exe_EstimatedDuration e > 0 \<and> Exe_Timestamp e > 0
                        then GetProgress now e else progress)
        in [\<lparr>rb_JobName = jobName, rb_BuildNum = Exe_Number e,
             rb_NodeName = Node_DisplayName node, rb_Progress = progress, rb_URL = Exe_URL e\<rparr>]
      else [])"

definition extractRunningBuilds :: "int \<Rightarrow> Node list \<Rightarrow> RunningBuildInfo list" where
  "extractRunningBuilds now nodes =
     concat (map (\<lambda>node. concat (map (runningOf now node) (Node_Executors node))) nodes)"

definition recentOf :: "Job \<Rightarrow> RecentBuildInfo list" where
  "recentOf job =
     (case Job_LastBuild job of
        None \<Rightarrow> []
      | Some b \<Rightarrow>
          let result = BuildRef_Result b;
              result = (if result = [] \<and> Job_IsRunning job then ''RUNNING'' else result)
          in [\<lparr>rc_JobName = Job_Name job, rc_BuildNum = BuildRef_Number b, rc_Result = result,
               rc_Color = Job_Color job, rc_Timestamp = BuildRef_Timestamp b,
               rc_Duration = BuildRef_Duration b, rc_URL = Job_URL job\<rparr>])"

definition processJobs :: "Job list \<Rightarrow> DashboardModel \<Rightarrow> DashboardModel" where
  "processJobs jobs m =
     m\<lparr>dm_recentBuilds := concat (map recentOf (SortJobsByLastBuild jobs))\<rparr>"

definition nextPanel :: "DashboardPanel \<Rightarrow> DashboardPanel" where
  "nextPanel p = (case p of PanelRunning \<Rightarrow> PanelNodes | PanelNodes \<Rightarrow> PanelQueue
                  | PanelQueue \<Rightarrow> PanelRecent | PanelRecent \<Rightarrow> PanelRunning)"

definition prevPanel :: "DashboardPanel \<Rightarrow> DashboardPanel" where
  "prevPanel p = (case p of PanelRunning \<Rightarrow> PanelRecent | PanelNodes \<Rightarrow> PanelRunning
                  | PanelQueue \<Rightarrow> PanelNodes | PanelRecent \<Rightarrow> PanelQueue)"

definition queueLen :: "DashboardModel \<Rightarrow> int option" where
  "queueLen m = map_option (\<lambda>q. int (length (Queue_Items q))) (dm_queue m)"

definition DashboardModel_navigateDown :: "DashboardModel \<Rightarrow> DashboardModel" where
  "DashboardModel_navigateDown m =
     (case dm_selectedPanel m of
        PanelRunning \<Rightarrow>
          if dm_selectedRunning m < int (length (dm_runningBuilds m)) - 1
          then m\<lparr>dm_selectedRunning := dm_selectedRunning m + 1\<rparr> else m
      | PanelNodes \<Rightarrow>
          if dm_selectedNode m < int (length (dm_nodes m)) - 1
          then m\<lparr>dm_selectedNode := dm_selectedNode m + 1\<rparr> else m
      | PanelQueue \<Rightarrow>
          (case queueLen m of
             None \<Rightarrow> m
           | Some n \<Rightarrow> if dm_selectedQueueItem m < n - 1
                       then m\<lparr>dm_selectedQueueItem := dm_selectedQueueItem m + 1\<rparr> else m)
      | PanelRecent \<Rightarrow>
          if dm_selectedBuild m < int (length (dm_recentBuilds m)) - 1
          then m\<lparr>dm_selectedBuild := dm_selectedBuild m + 1\<rparr> else m)"

definition DashboardModel_navigateUp :: "DashboardModel \<Rightarrow> DashboardModel" where
  "DashboardModel_navigateUp m =
     (case dm_selectedPanel m of
        PanelRunning \<Rightarrow>
          if dm_selectedRunning m > 0 then m\<lparr>dm_selectedRunning := dm_selectedRunning m - 1\<rparr> else m
      | PanelNodes \<Rightarrow>
          if dm_selectedNode m > 0 then m\<lparr>dm_selectedNode := dm_selectedNode m - 1\<rparr> else m
      | PanelQueue \<Rightarrow>
          if dm_selectedQueueItem m > 0
          then m\<lparr>dm_selectedQueueItem := dm_selectedQueueItem m - 1\<rparr> else m
      | PanelRecent \<Rightarrow>
          if dm_selectedBuild m > 0 then m\<lparr>dm_selectedBuild := dm_selectedBuild m - 1\<rparr> else m)"

definition goToTop :: "DashboardModel \<Rightarrow> DashboardModel" where
  "goToTop m =
     (case dm_selectedPanel m of
        PanelRunning \<Rightarrow> m\<lparr>dm_selectedRunning := 0\<rparr>
      | PanelNodes \<Rightarrow> m\<lparr>dm_selectedNode := 0\<rparr>
      | PanelQueue \<Rightarrow> m\<lparr>dm_selectedQueueItem := 0\<rparr>
      | PanelRecent \<Rightarrow> m\<lparr>dm_selectedBuild := 0\<rparr>)"

definition goToBottom :: "DashboardModel \<Rightarrow> DashboardModel" where
  "goToBottom m =
     (case dm_selectedPanel m of
        PanelRunning \<Rightarrow>
          if length (dm_runningBuilds m) > 0
          then m\<lparr>dm_selectedRunning := int (length (dm_runningBuilds m)) - 1\<rparr> else m
      | PanelNodes \<Rightarrow>
          if length (dm_nodes m) > 0
          then m\<lparr>dm_selectedNode := int (length (dm_nodes m)) - 1\<rparr> else m
      | PanelQueue \<Rightarrow>
          (case queueLen m of
             None \<Rightarrow> m
           | Some n \<Rightarrow> if n > 0 then m\<lparr>dm_selectedQueueItem := n - 1\<rparr> else m)
      | PanelRecent \<Rightarrow>
          if length (dm_recentBuilds m) > 0
          then m\<lparr>dm_selectedBuild := int (length (dm_recentBuilds m)) - 1\<rparr> else m)"

text \<open>
  The merge of a \<open>DashboardDataMsg\<close>: each payload that is not \<open>nil\<close> is stored, in the
  order of the source (root info, nodes with the running builds derived from them,
  queue, jobs, error). \<open>now\<close> is the time at which the message is processed.
\<close>

definition DashboardModel_merge :: "int \<Rightarrow> DashboardData \<Rightarrow> DashboardModel \<Rightarrow> DashboardModel" where
  "DashboardModel_merge now d m =
     (let m = m\<lparr>dm_loading := False, dm_lastUpdate := Some now\<rparr>;
          m = (case dd_RootInfo d of None \<Rightarrow> m | Some r \<Rightarrow> m\<lparr>dm_rootInfo := Some r\<rparr>);
          m = (case dd_Nodes d of
                 None \<Rightarrow> m
               | Some ns \<Rightarrow> m\<lparr>dm_nodes := ns, dm_runningBuilds := extractRunningBuilds now ns\<rparr>);
          m = (case dd_Queue d of None \<Rightarrow> m | Some q \<Rightarrow> m\<lparr>dm_queue := Some q\<rparr>);
          m = (case dd_Jobs d of None \<Rightarrow> m | Some js \<Rightarrow> processJobs js m);
          m = (case dd_Error d of None \<Rightarrow> m | Some e \<Rightarrow> m\<lparr>dm_lastError := Some e\<rparr>)
      in m)"

fun DashboardModel_Update :: "int \<Rightarrow> msg \<Rightarrow> DashboardModel \<Rightarrow> DashboardModel \<times> cmd list" where
  "DashboardModel_Update now (DashboardDataMsg d) m = (DashboardModel_merge now d m, [])"
| "DashboardModel_Update now SpinnerTickMsg m = (m, if dm_loading m then [SpinnerTick] else [])"
| "DashboardModel_Update now (KeyMsg key) m =
     (if key = ''r'' then DashboardModel_LoadData m
      else if key = ''j'' \<or> key = ''down'' then (DashboardModel_navigateDown m, [])
      else if key = ''k'' \<or> key = ''up'' then (DashboardModel_navigateUp m, [])
      else if key = ''tab'' then (m\<lparr>dm_selectedPanel := nextPanel (dm_selectedPanel m)\<rparr>, [])
      else if key = ''shift+tab'' then (m\<lparr>dm_selectedPanel := prevPanel (dm_selectedPanel m)\<rparr>, [])
      else if key = ''g'' then (goToTop m, [])
      else if key = ''G'' then (goToBottom m, [])
      else (m, []))"
| "DashboardModel_Update now other m = (m, [])"

text \<open>
  The messages of the four dashboard fetch commands: one payload each, with the error
  of the call. The fold of the merge over a sequence of messages takes each with the
  time at which it is processed.
\<close>

definition rootInfoMsg :: "RootInfo \<Rightarrow> err option \<Rightarrow> DashboardData" where
  "rootInfoMsg r e =
     \<lparr>dd_RootInfo = Some r, dd_Nodes = None, dd_Queue = None, dd_Jobs = None, dd_Error = e\<rparr>"


definition queueMsg :: "Queue \<Rightarrow> err option \<Rightarrow> DashboardData" where
  "queueMsg q e =
     \<lparr>dd_RootInfo = None, dd_Nodes = None, dd_Queue = Some q, dd_Jobs = None, dd_Error = e\<rparr>"






text \<open>Sample payloads.\<close>

definition sampleRootInfo :: RootInfo where
  "sampleRootInfo =
     \<lparr>RootInfo_Mode = ''NORMAL'', RootInfo_NodeName = ''built-in'',
      RootInfo_NumExecutors = 2, RootInfo_UseCrumbs = True\<rparr>"

definition sampleNodes :: "Node list" where
  "sampleNodes =
     [\<lparr>Node_DisplayName = ''agent-1'', Node_Offline = False, Node_NumExecutors = 1,
       Node_Executors =
         [\<lparr>Executor_CurrentExecutable =
             \<lparr>Exe_URL = ''http://jenkins/job/demo/7/'', Exe_Number = 7,
              Exe_DisplayName = ''#7'', Exe_FullDisplayName = ''demo #7'',
              Exe_Timestamp = 1000, Exe_EstimatedDuration = 2000\<rparr>,
           Executor_Progress = 0\<rparr>]\<rparr>]"

definition sampleQueue :: Queue where
  "sampleQueue = \<lparr>Queue_Items = [\<lparr>QueueItem_ID = 1, QueueItem_Why = ''waiting'', QueueItem_Blocked = False\<rparr>]\<rparr>"

definition sampleJobs :: "Job list" where
  "sampleJobs =
     [\<lparr>Job_Name = ''demo'', Job_URL = ''http://jenkins/job/demo/'', Job_Color = ''blue'',
       Job_LastBuild = Some \<lparr>BuildRef_Number = 6, BuildRef_Result = ''SUCCESS'',
                              BuildRef_Timestamp = 500, BuildRef_Duration = 100,
                              BuildRef_URL = ''http://jenkins/job/demo/6/''\<rparr>\<rparr>,
      \<lparr>Job_Name = ''other'', Job_URL = ''http://jenkins/job/other/'', Job_Color = ''notbuilt'',
       Job_LastBuild = None\<rparr>]"

section \<open>Views tab\<close>

datatype ViewsMode = ViewsModeList | ViewsModeJobs | ViewsModeJobDetail

record ViewsModel =
  vm_width :: int
  vm_height :: int
  vm_mode :: ViewsMode
  vm_views :: "View list"
  vm_selectedView :: int
  vm_jobs :: "Job list"
  vm_selectedJob :: int
  vm_jobDetail :: "JobDetail option"
  vm_searchInput :: string
  vm_searching :: bool
  vm_filter :: string
  vm_viewsScroll :: int
  vm_jobsScroll :: int
  vm_loading :: bool
  vm_lastError :: "err option"
  vm_lastUpdate :: "int option"

definition NewViewsModel :: "int \<Rightarrow> int \<Rightarrow> ViewsModel" where
  "NewViewsModel width height =
     \<lparr>vm_width = width, vm_height = height, vm_mode = ViewsModeList, vm_views = [],
      vm_selectedView = 0, vm_jobs = [], vm_selectedJob = 0, vm_jobDetail = None,
      vm_searchInput = [], vm_searching = False, vm_filter = [], vm_viewsScroll = 0,
      vm_jobsScroll = 0, vm_loading = True, vm_lastError = None, vm_lastUpdate = None\<rparr>"

definition ViewsModel_LoadData :: "ViewsModel \<Rightarrow> ViewsModel \<times> cmd list" where
  "ViewsModel_LoadData m = (m\<lparr>vm_loading := True\<rparr>, [ViewsFetchViews, SpinnerTick])"

definition fetchViewJobs :: "string \<Rightarrow> ViewsModel \<Rightarrow> ViewsModel \<times> cmd list" where
  "fetchViewJobs viewName m = (m\<lparr>vm_loading := True\<rparr>, [ViewsFetchViewJobs viewName])"

definition ViewsModel_fetchJobDetail :: "string \<Rightarrow> ViewsModel \<Rightarrow> ViewsModel \<times> cmd list" where
  "ViewsModel_fetchJobDetail jobName m = (m\<lparr>vm_loading := True\<rparr>, [ViewsFetchJobDetail jobName])"

definition getFilteredViews :: "ViewsModel \<Rightarrow> View list" where
  "getFilteredViews m =
     (if vm_filter m = [] then vm_views m
      else filter (\<lambda>view. Contains (ToLower (View_Name view)) (ToLower (vm_filter m))) (vm_views m))"

definition ViewsModel_getFilteredJobs :: "ViewsModel \<Rightarrow> Job list" where
  "ViewsModel_getFilteredJobs m =
     (if vm_filter m = [] then vm_jobs m
      else filter (\<lambda>job. Contains (ToLower (Job_Name job)) (ToLower (vm_filter m))) (vm_jobs m))"

definition ViewsModel_navigateDown :: "ViewsModel \<Rightarrow> ViewsModel" where
  "ViewsModel_navigateDown m =
     (case vm_mode m of
        ViewsModeList \<Rightarrow>
          if vm_selectedView m < int (length (getFilteredViews m)) - 1 then
            let m = m\<lparr>vm_selectedView := vm_selectedView m + 1\<rparr>;
                listHeight = vm_height m - 12
            in if vm_selectedView m \<ge> vm_viewsScroll m + listHeight
               then m\<lparr>vm_viewsScroll := vm_selectedView m - listHeight + 1\<rparr> else m
          else m
      | ViewsModeJobs \<Rightarrow>
          if vm_selectedJob m < int (length (ViewsModel_getFilteredJobs m)) - 1 then
            let m = m\<lparr>vm_selectedJob := vm_selectedJob m + 1\<rparr>;
                listHeight = vm_height m - 14
            in if vm_selectedJob m \<ge> vm_jobsScroll m + listHeight
               then m\<lparr>vm_jobsScroll := vm_selectedJob m - listHeight + 1\<rparr> else m
          else m
      | ViewsModeJobDetail \<Rightarrow> m)"

definition ViewsModel_navigateUp :: "ViewsModel \<Rightarrow> ViewsModel" where
  "ViewsModel_navigateUp m =
     (case vm_mode m of
        ViewsModeList \<Rightarrow>
          if vm_selectedView m > 0 then
            let m = m\<lparr>vm_selectedView := vm_selectedView m - 1\<rparr>
            in if vm_selectedView m < vm_viewsScroll m
               then m\<lparr>vm_viewsScroll := vm_selectedView m\<rparr> else m
          else m
      | ViewsModeJobs \<Rightarrow>
          if vm_selectedJob m > 0 then
            let m = m\<lparr>vm_selectedJob := vm_selectedJob m - 1\<rparr>
            in if vm_selectedJob m < vm_jobsScroll m
               then m\<lparr>vm_jobsScroll := vm_selectedJob m\<rparr> else m
          else m
      | ViewsModeJobDetail \<Rightarrow> m)"

definition ViewsModel_pageDown :: "ViewsModel \<Rightarrow> ViewsModel" where
  "ViewsModel_pageDown m =
     (let pageSize = quot (vm_height m) 3 in
      case vm_mode m of
        ViewsModeList \<Rightarrow>
          let m = m\<lparr>vm_selectedView :=
                     minInt (vm_selectedView m + pageSize) (int (length (getFilteredViews m)) - 1)\<rparr>;
              listHeight = vm_height m - 12
          in if vm_selectedView m \<ge> vm_viewsScroll m + listHeight
             then m\<lparr>vm_viewsScroll := vm_selectedView m - listHeight + 1\<rparr> else m
      | ViewsModeJobs \<Rightarrow>
          let m = m\<lparr>vm_selectedJob :=
                     minInt (vm_selectedJob m + pageSize)
                       (int (length (ViewsModel_getFilteredJobs m)) - 1)\<rparr>;
              listHeight = vm_height m - 14
          in if vm_selectedJob m \<ge> vm_jobsScroll m + listHeight
             then m\<lparr>vm_jobsScroll := vm_selectedJob m - listHeight + 1\<rparr> else m
      | ViewsModeJobDetail \<Rightarrow> m)"

definition ViewsModel_pageUp :: "ViewsModel \<Rightarrow> ViewsModel" where
  "ViewsModel_pageUp m =
     (let pageSize = quot (vm_height m) 3 in
      case vm_mode m of
        ViewsModeList \<Rightarrow>
          let m = m\<lparr>vm_selectedView := maxInt (vm_selectedView m - pageSize) 0\<rparr>
          in if vm_selectedView m < vm_viewsScroll m
             then m\<lparr>vm_viewsScroll := vm_selectedView m\<rparr> else m
      | ViewsModeJobs \<Rightarrow>
          let m = m\<lparr>vm_selectedJob := maxInt (vm_selectedJob m - pageSize) 0\<rparr>
          in if vm_selectedJob m < vm_jobsScroll m
             then m\<lparr>vm_jobsScroll := vm_selectedJob m\<rparr> else m
      | ViewsModeJobDetail \<Rightarrow> m)"

text \<open>The merge of a \<open>ViewsDataMsg\<close>.\<close>

definition ViewsModel_merge :: "int \<Rightarrow> ViewsData \<Rightarrow> ViewsModel \<Rightarrow> ViewsModel" where
  "ViewsModel_merge now d m =
     (let m = m\<lparr>vm_loading := False, vm_lastUpdate := Some now\<rparr>;
          m = (case vd_Views d of None \<Rightarrow> m | Some vs \<Rightarrow> m\<lparr>vm_views := vs\<rparr>);
          m = (case vd_Jobs d of None \<Rightarrow> m | Some js \<Rightarrow> m\<lparr>vm_jobs := SortJobsByLastBuild js\<rparr>);
          m = (case vd_JobDetail d of None \<Rightarrow> m | Some jd \<Rightarrow> m\<lparr>vm_jobDetail := Some jd\<rparr>);
          m = (case vd_Error d of None \<Rightarrow> m | Some e \<Rightarrow> m\<lparr>vm_lastError := Some e\<rparr>)
      in m)"

text \<open>The \<open>esc\<close> case outside the search box: one mode up.\<close>

definition ViewsModel_back :: "ViewsModel \<Rightarrow> ViewsModel" where
  "ViewsModel_back m =
     (case vm_mode m of
        ViewsModeJobDetail \<Rightarrow> m\<lparr>vm_mode := ViewsModeJobs, vm_jobDetail := None\<rparr>
      | ViewsModeJobs \<Rightarrow>
          m\<lparr>vm_mode := ViewsModeList, vm_jobs := [], vm_selectedJob := 0, vm_jobsScroll := 0\<rparr>
      | ViewsModeList \<Rightarrow> m)"

text \<open>
  The key handling of \<open>ViewsModel.Update\<close>: first the keys while the search box is
  open, then the \<open>switch\<close> on the key. A slice index out of range is the panic.
\<close>

definition ViewsModel_key :: "string \<Rightarrow> ViewsModel \<Rightarrow> panic + ViewsModel \<times> cmd list" where
  "ViewsModel_key key m =
     (if vm_searching m then
        (if key = ''esc'' then
           Inr (m\<lparr>vm_searching := False, vm_filter := [], vm_searchInput := []\<rparr>, [])
         else if key = ''enter'' then
           Inr (m\<lparr>vm_searching := False, vm_filter := vm_searchInput m\<rparr>, [])
         else
           let text = textinput_Update key (vm_searchInput m)
           in Inr (m\<lparr>vm_searchInput := text, vm_filter := text\<rparr>, []))
      else if key = ''/'' then Inr (m\<lparr>vm_searching := True\<rparr>, [Blink])
      else if key = ''esc'' then Inr (ViewsModel_back m, [])
      else if key = ''enter'' then
        (case vm_mode m of
           ViewsModeList \<Rightarrow>
             if length (getFilteredViews m) > 0 then
               let m = m\<lparr>vm_mode := ViewsModeJobs\<rparr> in
               (case index (getFilteredViews m) (vm_selectedView m) of
                  Inl p \<Rightarrow> Inl p
                | Inr view \<Rightarrow> Inr (fetchViewJobs (View_Name view) m))
             else Inr (m, [])
         | ViewsModeJobs \<Rightarrow>
             let filteredJobs = ViewsModel_getFilteredJobs m in
             if length filteredJobs > 0 \<and> vm_selectedJob m < int (length filteredJobs) then
               let m = m\<lparr>vm_mode := ViewsModeJobDetail\<rparr> in
               (case index filteredJobs (vm_selectedJob m) of
                  Inl p \<Rightarrow> Inl p
                | Inr job \<Rightarrow> Inr (ViewsModel_fetchJobDetail (Job_Name job) m))
             else Inr (m, [])
         | ViewsModeJobDetail \<Rightarrow> Inr (m, []))
      else if key = ''o'' then
        (case vm_mode m of
           ViewsModeList \<Rightarrow>
             let filtered = getFilteredViews m in
             if length filtered > 0 \<and> vm_selectedView m < int (length filtered) then
               (case index filtered (vm_selectedView m) of
                  Inl p \<Rightarrow> Inl p
                | Inr view \<Rightarrow> Inr (m, if View_URL view \<noteq> [] then [OpenBrowser (View_URL view)] else []))
             else Inr (m, [])
         | ViewsModeJobs \<Rightarrow>
             let filtered = ViewsModel_getFilteredJobs m in
             if length filtered > 0 \<and> vm_selectedJob m < int (length filtered) then
               (case index filtered (vm_selectedJob m) of
                  Inl p \<Rightarrow> Inl p
                | Inr job \<Rightarrow> Inr (m, if Job_URL job \<noteq> [] then [OpenBrowser (Job_URL job)] else []))
             else Inr (m, [])
         | ViewsModeJobDetail \<Rightarrow>
             (case vm_jobDetail m of
                None \<Rightarrow> Inr (m, [])
              | Some jd \<Rightarrow>
                  Inr (m, if JobDetail_URL jd \<noteq> [] then [OpenBrowser (JobDetail_URL jd)] else [])))
      else if key = ''r'' then
        (if vm_mode m = ViewsModeList then Inr (ViewsModel_LoadData m)
         else if vm_mode m = ViewsModeJobs then
           (case index (vm_views m) (vm_selectedView m) of
              Inl p \<Rightarrow> Inl p
            | Inr view \<Rightarrow> Inr (fetchViewJobs (View_Name view) m))
         else Inr (m, []))
      else if key = ''j'' \<or> key = ''down'' then Inr (ViewsModel_navigateDown m, [])
      else if key = ''k'' \<or> key = ''up'' then Inr (ViewsModel_navigateUp m, [])
      else if key = ''g'' then
        Inr (m\<lparr>vm_selectedView := 0, vm_selectedJob := 0, vm_viewsScroll := 0, vm_jobsScroll := 0\<rparr>, [])
      else if key = ''G'' then
        (case vm_mode m of
           ViewsModeList \<Rightarrow>
             let filtered = getFilteredViews m in
             Inr (if length filtered > 0
                  then m\<lparr>vm_selectedView := int (length filtered) - 1\<rparr> else m, [])
         | ViewsModeJobs \<Rightarrow>
             let filtered = ViewsModel_getFilteredJobs m in
             Inr (if length filtered > 0
                  then m\<lparr>vm_selectedJob := int (length filtered) - 1\<rparr> else m, [])
         | ViewsModeJobDetail \<Rightarrow> Inr (m, []))
      else if key = ''pgdown'' then Inr (ViewsModel_pageDown m, [])
      else if key = ''pgup'' then Inr (ViewsModel_pageUp m, [])
      else if key = ''backspace'' then
        Inr (if vm_filter m \<noteq> [] then m\<lparr>vm_filter := [], vm_searchInput := []\<rparr> else m, [])
      else Inr (m, []))"

fun ViewsModel_Update :: "int \<Rightarrow> msg \<Rightarrow> ViewsModel \<Rightarrow> panic + ViewsModel \<times> cmd list" where
  "ViewsModel_Update now (ViewsDataMsg d) m = Inr (ViewsModel_merge now d m, [])"
| "ViewsModel_Update now SpinnerTickMsg m = Inr (m, if vm_loading m then [SpinnerTick] else [])"
| "ViewsModel_Update now (KeyMsg key) m = ViewsModel_key key m"
| "ViewsModel_Update now other m = Inr (m, [])"

text \<open>
  A run of the tab: the messages are processed in order (each with its time), and the
  first panic ends the run.
\<close>

fun ViewsModel_run :: "(int \<times> msg) list \<Rightarrow> ViewsModel \<Rightarrow> panic + ViewsModel" where
  "ViewsModel_run [] m = Inr m"
| "ViewsModel_run ((now, x) # rest) m =
     (case ViewsModel_Update now x m of
        Inl p \<Rightarrow> Inl p
      | Inr (m', cmds) \<Rightarrow> ViewsModel_run rest m')"

text \<open>Sample views and a views model showing them, as after the first load.\<close>

definition sampleViews :: "View list" where
  "sampleViews =
     [\<lparr>View_Name = ''alpha'', View_URL = ''http://jenkins/view/alpha/''\<rparr>,
      \<lparr>View_Name = ''beta'', View_URL = ''http://jenkins/view/beta/''\<rparr>]"

definition viewsMsg :: "View list \<Rightarrow> msg" where
  "viewsMsg vs = ViewsDataMsg \<lparr>vd_Views = Some vs, vd_Jobs = None, vd_JobDetail = None, vd_Error = None\<rparr>"

section \<open>Builds tab\<close>

datatype BuildsMode = ModeJobList | ModeBuildList | ModeBuildDetail | ModeStageLogView | ModeLogView

text \<open>
  The \<open>BuildsModel\<close> struct. The viewport, the paginator and the spinner are display
  components of the Bubbles library; calls on them change none of the fields below and
  are left out. The two text inputs are their texts.
\<close>

record BuildsModel =
  bm_width :: int
  bm_height :: int
  bm_mode :: BuildsMode
  bm_jobs :: "Job list"
  bm_selectedJob :: int
  bm_jobDetail :: "JobDetail option"
  bm_builds :: "BuildRef list"
  bm_selectedBuild :: int
  bm_selectedStage :: int
  bm_buildDetail :: "Build option"
  bm_pipelineRun :: "PipelineRun option"
  bm_logContent :: string
  bm_searchInput :: string
  bm_searching :: bool
  bm_filter :: string
  bm_pageSize :: int
  bm_currentPage :: int
  bm_totalBuilds :: int
  bm_followLog :: bool
  bm_logSearchInput :: string
  bm_logSearching :: bool
  bm_logFilter :: string
  bm_jobsScroll :: int
  bm_buildsScroll :: int
  bm_loading :: bool
  bm_lastError :: "err option"
  bm_lastUpdate :: "int option"

definition NewBuildsModel :: "int \<Rightarrow> int \<Rightarrow> BuildsModel" where
  "NewBuildsModel width height =
     \<lparr>bm_width = width, bm_height = height, bm_mode = ModeJobList, bm_jobs = [],
      bm_selectedJob = 0, bm_jobDetail = None, bm_builds = [], bm_selectedBuild = 0,
      bm_selectedStage = 0, bm_buildDetail = None, bm_pipelineRun = None, bm_logContent = [],
      bm_searchInput = [], bm_searching = False, bm_filter = [], bm_pageSize = 20,
      bm_currentPage = 0, bm_totalBuilds = 0, bm_followLog = False, bm_logSearchInput = [],
      bm_logSearching = False, bm_logFilter = [], bm_jobsScroll = 0, bm_buildsScroll = 0,
      bm_loading = True, bm_lastError = None, bm_lastUpdate = None\<rparr>"

definition isLogMode :: "BuildsMode \<Rightarrow> bool" where
  "isLogMode mode \<longleftrightarrow> mode = ModeLogView \<or> mode = ModeStageLogView"

definition BuildsModel_LoadData :: "BuildsModel \<Rightarrow> BuildsModel \<times> cmd list" where
  "BuildsModel_LoadData m = (m\<lparr>bm_loading := True\<rparr>, [BuildsFetchJobs, SpinnerTick])"

definition BuildsModel_fetchJobDetail :: "string \<Rightarrow> BuildsModel \<Rightarrow> BuildsModel \<times> cmd list" where
  "BuildsModel_fetchJobDetail jobName m = (m\<lparr>bm_loading := True\<rparr>, [BuildsFetchJobDetail jobName])"

definition fetchBuildDetail :: "string \<Rightarrow> int \<Rightarrow> BuildsModel \<Rightarrow> BuildsModel \<times> cmd list" where
  "fetchBuildDetail jobName buildNum m =
     (m\<lparr>bm_loading := True\<rparr>, [BuildsFetchBuildDetail jobName buildNum])"

definition fetchBuildLog :: "string \<Rightarrow> int \<Rightarrow> BuildsModel \<Rightarrow> BuildsModel \<times> cmd list" where
  "fetchBuildLog jobName buildNum m =
     (m\<lparr>bm_loading := True\<rparr>, [BuildsFetchBuildLog jobName buildNum])"

definition fetchStageLog :: "string \<Rightarrow> int \<Rightarrow> string \<Rightarrow> BuildsModel \<Rightarrow> BuildsModel \<times> cmd list" where
  "fetchStageLog jobName buildNum stageID m =
     (m\<lparr>bm_loading := True\<rparr>, [BuildsFetchStageLog jobName buildNum stageID])"

definition BuildsModel_getFilteredJobs :: "BuildsModel \<Rightarrow> Job list" where
  "BuildsModel_getFilteredJobs m =
     (if bm_filter m = [] then bm_jobs m
      else filter (\<lambda>job. Contains (ToLower (Job_Name job)) (ToLower (bm_filter m))) (bm_jobs m))"

definition stageCount :: "BuildsModel \<Rightarrow> int option" where
  "stageCount m = map_option (\<lambda>run. int (length (PipelineRun_Stages run))) (bm_pipelineRun m)"

definition BuildsModel_navigateDown :: "BuildsModel \<Rightarrow> BuildsModel" where
  "BuildsModel_navigateDown m =
     (case bm_mode m of
        ModeJobList \<Rightarrow>
          if bm_selectedJob m < int (length (BuildsModel_getFilteredJobs m)) - 1 then
            let m = m\<lparr>bm_selectedJob := bm_selectedJob m + 1\<rparr>;
                listHeight = bm_height m - 14
            in if bm_selectedJob m \<ge> bm_jobsScroll m + listHeight
               then m\<lparr>bm_jobsScroll := bm_selectedJob m - listHeight + 1\<rparr> else m
          else m
      | ModeBuildList \<Rightarrow>
          if bm_selectedBuild m < int (length (bm_builds m)) - 1 then
            let m = m\<lparr>bm_selectedBuild := bm_selectedBuild m + 1\<rparr>;
                listHeight = bm_height m - 14
            in if bm_selectedBuild m \<ge> bm_buildsScroll m + listHeight
               then m\<lparr>bm_buildsScroll := bm_selectedBuild m - listHeight + 1\<rparr> else m
          else m
      | ModeBuildDetail \<Rightarrow>
          (case stageCount m of
             None \<Rightarrow> m
           | Some n \<Rightarrow> if bm_selectedStage m < n - 1
                       then m\<lparr>bm_selectedStage := bm_selectedStage m + 1\<rparr> else m)
      | ModeStageLogView \<Rightarrow> m
      | ModeLogView \<Rightarrow> m)"

definition BuildsModel_navigateUp :: "BuildsModel \<Rightarrow> BuildsModel" where
  "BuildsModel_navigateUp m =
     (case bm_mode m of
        ModeJobList \<Rightarrow>
          if bm_selectedJob m > 0 then
            let m = m\<lparr>bm_selectedJob := bm_selectedJob m - 1\<rparr>
            in if bm_selectedJob m < bm_jobsScroll m
               then m\<lparr>bm_jobsScroll := bm_selectedJob m\<rparr> else m
          else m
      | ModeBuildList \<Rightarrow>
          if bm_selectedBuild m > 0 then
            let m = m\<lparr>bm_selectedBuild := bm_selectedBuild m - 1\<rparr>
            in if bm_selectedBuild m < bm_buildsScroll m
               then m\<lparr>bm_buildsScroll := bm_selectedBuild m\<rparr> else m
          else m
      | ModeBuildDetail \<Rightarrow>
          if bm_selectedStage m > 0 then m\<lparr>bm_selectedStage := bm_selectedStage m - 1\<rparr> else m
      | ModeStageLogView \<Rightarrow> m
      | ModeLogView \<Rightarrow> m)"

definition BuildsModel_pageDown :: "BuildsModel \<Rightarrow> BuildsModel" where
  "BuildsModel_pageDown m =
     (let pageSize = quot (bm_height m) 3 in
      case bm_mode m of
        ModeJobList \<Rightarrow>
          let m = m\<lparr>bm_selectedJob :=
                     minInt (bm_selectedJob m + pageSize)
                       (int (length (BuildsModel_getFilteredJobs m)) - 1)\<rparr>;
              listHeight = bm_height m - 14
          in if bm_selectedJob m \<ge> bm_jobsScroll m + listHeight
             then m\<lparr>bm_jobsScroll := bm_selectedJob m - listHeight + 1\<rparr> else m
      | ModeBuildList \<Rightarrow>
          let m = m\<lparr>bm_selectedBuild :=
                     minInt (bm_selectedBuild m + pageSize) (int (length (bm_builds m)) - 1)\<rparr>;
              listHeight = bm_height m - 14
          in if bm_selectedBuild m \<ge> bm_buildsScroll m + listHeight
             then m\<lparr>bm_buildsScroll := bm_selectedBuild m - listHeight + 1\<rparr> else m
      | ModeBuildDetail \<Rightarrow> m
      | ModeStageLogView \<Rightarrow> m
      | ModeLogView \<Rightarrow> m)"

definition BuildsModel_pageUp :: "BuildsModel \<Rightarrow> BuildsModel" where
  "BuildsModel_pageUp m =
     (let pageSize = quot (bm_height m) 3 in
      case bm_mode m of
        ModeJobList \<Rightarrow>
          let m = m\<lparr>bm_selectedJob := maxInt (bm_selectedJob m - pageSize) 0\<rparr>
          in if bm_selectedJob m < bm_jobsScroll m
             then m\<lparr>bm_jobsScroll := bm_selectedJob m\<rparr> else m
      | ModeBuildList \<Rightarrow>
          let m = m\<lparr>bm_selectedBuild := maxInt (bm_selectedBuild m - pageSize) 0\<rparr>
          in if bm_selectedBuild m < bm_buildsScroll m
             then m\<lparr>bm_buildsScroll := bm_selectedBuild m\<rparr> else m
      | ModeBuildDetail \<Rightarrow> m
      | ModeStageLogView \<Rightarrow> m
      | ModeLogView \<Rightarrow> m)"

text \<open>The merge of a \<open>BuildsDataMsg\<close>.\<close>

definition BuildsModel_merge :: "int \<Rightarrow> BuildsData \<Rightarrow> BuildsModel \<Rightarrow> BuildsModel" where
  "BuildsModel_merge now d m =
     (let m = m\<lparr>bm_loading := False, bm_lastUpdate := Some now\<rparr>;
          m = (case bd_Jobs d of None \<Rightarrow> m | Some js \<Rightarrow> m\<lparr>bm_jobs := SortJobsByLastBuild js\<rparr>);
          m = (case bd_JobDetail d of
                 None \<Rightarrow> m
               | Some jd \<Rightarrow>
                   let builds = SortBuildsByNumber (JobDetail_Builds jd)
                   in m\<lparr>bm_jobDetail := Some (jd\<lparr>JobDetail_Builds := builds\<rparr>),
                        bm_builds := builds, bm_totalBuilds := int (length builds)\<rparr>);
          m = (case bd_BuildDetail d of None \<Rightarrow> m | Some b \<Rightarrow> m\<lparr>bm_buildDetail := Some b\<rparr>);
          m = (case bd_PipelineRun d of None \<Rightarrow> m | Some r \<Rightarrow> m\<lparr>bm_pipelineRun := Some r\<rparr>);
          m = (if bd_LogContent d \<noteq> [] then m\<lparr>bm_logContent := bd_LogContent d\<rparr> else m);
          m = (case bd_Error d of None \<Rightarrow> m | Some e \<Rightarrow> m\<lparr>bm_lastError := Some e\<rparr>)
      in m)"

text \<open>The \<open>esc\<close> case outside the two search boxes: one mode up.\<close>

definition BuildsModel_back :: "BuildsModel \<Rightarrow> BuildsModel" where
  "BuildsModel_back m =
     (case bm_mode m of
        ModeLogView \<Rightarrow> m\<lparr>bm_mode := ModeBuildDetail, bm_logContent := [], bm_logFilter := []\<rparr>
      | ModeStageLogView \<Rightarrow> m\<lparr>bm_mode := ModeBuildDetail, bm_logContent := [], bm_logFilter := []\<rparr>
      | ModeBuildDetail \<Rightarrow>
          m\<lparr>bm_mode := ModeBuildList, bm_buildDetail := None, bm_pipelineRun := None\<rparr>
      | ModeBuildList \<Rightarrow>
          m\<lparr>bm_mode := ModeJobList, bm_jobDetail := None, bm_builds := [],
            bm_selectedBuild := 0, bm_buildsScroll := 0\<rparr>
      | ModeJobList \<Rightarrow> m)"

text \<open>
  Reading a field through a pointer of the model: \<open>nil\<close> is the panic.
\<close>

definition deref :: "'a option \<Rightarrow> panic + 'a" where
  "deref p = (case p of None \<Rightarrow> Inl NilPointerDereference | Some v \<Rightarrow> Inr v)"

definition BuildsModel_enter :: "BuildsModel \<Rightarrow> panic + BuildsModel \<times> cmd list" where
  "BuildsModel_enter m =
     (case bm_mode m of
        ModeJobList \<Rightarrow>
          let filtered = BuildsModel_getFilteredJobs m in
          if length filtered > 0 \<and> bm_selectedJob m < int (length filtered) then
            let m = m\<lparr>bm_mode := ModeBuildList\<rparr> in
            (case index filtered (bm_selectedJob m) of
               Inl p \<Rightarrow> Inl p
             | Inr job \<Rightarrow> Inr (BuildsModel_fetchJobDetail (Job_Name job) m))
          else Inr (m, [])
      | ModeBuildList \<Rightarrow>
          if length (bm_builds m) > 0 \<and> bm_selectedBuild m < int (length (bm_builds m)) then
            let m = m\<lparr>bm_mode := ModeBuildDetail\<rparr> in
            (case deref (bm_jobDetail m) of
               Inl p \<Rightarrow> Inl p
             | Inr jd \<Rightarrow>
                 (case index (bm_builds m) (bm_selectedBuild m) of
                    Inl p \<Rightarrow> Inl p
                  | Inr b \<Rightarrow> Inr (fetchBuildDetail (JobDetail_Name jd) (BuildRef_Number b) m)))
          else Inr (m, [])
      | ModeBuildDetail \<Rightarrow>
          (case bm_pipelineRun m of
             None \<Rightarrow> Inr (m, [])
           | Some run \<Rightarrow>
               if length (PipelineRun_Stages run) > 0 then
                 let m = m\<lparr>bm_mode := ModeStageLogView\<rparr> in
                 (case index (PipelineRun_Stages run) (bm_selectedStage m) of
                    Inl p \<Rightarrow> Inl p
                  | Inr stage \<Rightarrow>
                      (case deref (bm_jobDetail m) of
                         Inl p \<Rightarrow> Inl p
                       | Inr jd \<Rightarrow>
                           (case deref (bm_buildDetail m) of
                              Inl p \<Rightarrow> Inl p
                            | Inr b \<Rightarrow>
                                Inr (fetchStageLog (JobDetail_Name jd) (Build_Number b)
                                       (Stage_ID stage) m))))
               else Inr (m, []))
      | ModeStageLogView \<Rightarrow> Inr (m, [])
      | ModeLogView \<Rightarrow> Inr (m, []))"

definition BuildsModel_log :: "BuildsModel \<Rightarrow> panic + BuildsModel \<times> cmd list" where
  "BuildsModel_log m =
     (case bm_jobDetail m of
        None \<Rightarrow> Inr (m, [])
      | Some jd \<Rightarrow>
          if bm_mode m = ModeBuildList \<or> bm_mode m = ModeBuildDetail then
            (case (if bm_mode m = ModeBuildList \<and> length (bm_builds m) > 0
                   then map_sum id BuildRef_Number (index (bm_builds m) (bm_selectedBuild m))
                   else if bm_mode m = ModeBuildDetail
                   then Inr (case bm_buildDetail m of None \<Rightarrow> 0 | Some b \<Rightarrow> Build_Number b)
                   else Inr 0) of
               Inl p \<Rightarrow> Inl p
             | Inr buildNum \<Rightarrow>
                 if buildNum > 0
                 then Inr (fetchBuildLog (JobDetail_Name jd) buildNum (m\<lparr>bm_mode := ModeLogView\<rparr>))
                 else Inr (m, []))
          else Inr (m, []))"

definition BuildsModel_refresh :: "BuildsModel \<Rightarrow> panic + BuildsModel \<times> cmd list" where
  "BuildsModel_refresh m =
     (case bm_mode m of
        ModeJobList \<Rightarrow> Inr (BuildsModel_LoadData m)
      | ModeBuildList \<Rightarrow>
          (case bm_jobDetail m of
             None \<Rightarrow> Inr (m, [])
           | Some jd \<Rightarrow> Inr (BuildsModel_fetchJobDetail (JobDetail_Name jd) m))
      | ModeBuildDetail \<Rightarrow> Inr (m, [])
      | ModeLogView \<Rightarrow>
          (case (bm_jobDetail m, bm_buildDetail m) of
             (Some jd, Some b) \<Rightarrow> Inr (fetchBuildLog (JobDetail_Name jd) (Build_Number b) m)
           | _ \<Rightarrow> Inr (m, []))
      | ModeStageLogView \<Rightarrow>
          (case (bm_jobDetail m, bm_buildDetail m) of
             (Some jd, Some b) \<Rightarrow>
               (case deref (bm_pipelineRun m) of
                  Inl p \<Rightarrow> Inl p
                | Inr run \<Rightarrow>
                    (case index (PipelineRun_Stages run) (bm_selectedStage m) of
                       Inl p \<Rightarrow> Inl p
                     | Inr stage \<Rightarrow>
                         Inr (fetchStageLog (JobDetail_Name jd) (Build_Number b) (Stage_ID stage) m)))
           | _ \<Rightarrow> Inr (m, [])))"

definition BuildsModel_open :: "BuildsModel \<Rightarrow> panic + BuildsModel \<times> cmd list" where
  "BuildsModel_open m =
     (case (case bm_mode m of
              ModeJobList \<Rightarrow>
                let filtered = BuildsModel_getFilteredJobs m in
                if length filtered > 0 \<and> bm_selectedJob m < int (length filtered)
                then map_sum id Job_URL (index filtered (bm_selectedJob m)) else Inr []
            | ModeBuildList \<Rightarrow>
                if length (bm_builds m) > 0 \<and> bm_selectedBuild m < int (length (bm_builds m))
                then map_sum id BuildRef_URL (index (bm_builds m) (bm_selectedBuild m)) else Inr []
            | ModeBuildDetail \<Rightarrow>
                Inr (case bm_buildDetail m of None \<Rightarrow> [] | Some b \<Rightarrow> Build_URL b)
            | ModeStageLogView \<Rightarrow>
                Inr (case bm_buildDetail m of None \<Rightarrow> [] | Some b \<Rightarrow> Build_URL b @ ''console'')
            | ModeLogView \<Rightarrow>
                Inr (case bm_buildDetail m of None \<Rightarrow> [] | Some b \<Rightarrow> Build_URL b @ ''console'')) of
        Inl p \<Rightarrow> Inl p
      | Inr url \<Rightarrow> Inr (m, if url \<noteq> [] then [OpenBrowser url] else []))"

definition BuildsModel_key :: "string \<Rightarrow> BuildsModel \<Rightarrow> panic + BuildsModel \<times> cmd list" where
  "BuildsModel_key key m =
     (if bm_searching m then
        (if key = ''esc'' then
           Inr (m\<lparr>bm_searching := False, bm_filter := [], bm_searchInput := []\<rparr>, [])
         else if key = ''enter'' then
           Inr (m\<lparr>bm_searching := False, bm_filter := bm_searchInput m\<rparr>, [])
         else Inr (m\<lparr>bm_searchInput := textinput_Update key (bm_searchInput m)\<rparr>, []))
      else if bm_logSearching m then
        (if key = ''esc'' then Inr (m\<lparr>bm_logSearching := False\<rparr>, [])
         else if key = ''enter'' then
           Inr (m\<lparr>bm_logSearching := False, bm_logFilter := bm_logSearchInput m\<rparr>, [])
         else Inr (m\<lparr>bm_logSearchInput := textinput_Update key (bm_logSearchInput m)\<rparr>, []))
      else if key = ''/'' then
        (if isLogMode (bm_mode m) then Inr (m\<lparr>bm_logSearching := True\<rparr>, [Blink])
         else Inr (m\<lparr>bm_searching := True\<rparr>, [Blink]))
      else if key = ''esc'' then Inr (BuildsModel_back m, [])
      else if key = ''enter'' then BuildsModel_enter m
      else if key = ''l'' then BuildsModel_log m
      else if key = ''s'' then
        Inr (if isLogMode (bm_mode m) then m\<lparr>bm_followLog := \<not> bm_followLog m\<rparr> else m, [])
      else if key = ''r'' then BuildsModel_refresh m
      else if key = ''o'' then BuildsModel_open m
      else if key = ''j'' \<or> key = ''down'' then Inr (BuildsModel_navigateDown m, [])
      else if key = ''k'' \<or> key = ''up'' then Inr (BuildsModel_navigateUp m, [])
      else if key = ''g'' then
        Inr (m\<lparr>bm_selectedJob := 0, bm_selectedBuild := 0, bm_jobsScroll := 0, bm_buildsScroll := 0\<rparr>, [])
      else if key = ''G'' then
        (case bm_mode m of
           ModeJobList \<Rightarrow>
             let filtered = BuildsModel_getFilteredJobs m in
             Inr (if length filtered > 0
                  then m\<lparr>bm_selectedJob := int (length filtered) - 1\<rparr> else m, [])
         | ModeBuildList \<Rightarrow>
             Inr (if length (bm_builds m) > 0
                  then m\<lparr>bm_selectedBuild := int (length (bm_builds m)) - 1\<rparr> else m, [])
         | ModeBuildDetail \<Rightarrow> Inr (m, [])
         | ModeStageLogView \<Rightarrow> Inr (m, [])
         | ModeLogView \<Rightarrow> Inr (m, []))
      else if key = ''pgdown'' \<or> key = ''ctrl+f'' then
        Inr (if isLogMode (bm_mode m) then m else BuildsModel_pageDown m, [])
      else if key = ''pgup'' \<or> key = ''ctrl+b'' then
        Inr (if isLogMode (bm_mode m) then m else BuildsModel_pageUp m, [])
      else Inr (m, []))"

fun BuildsModel_Update :: "int \<Rightarrow> msg \<Rightarrow> BuildsModel \<Rightarrow> panic + BuildsModel \<times> cmd list" where
  "BuildsModel_Update now (BuildsDataMsg d) m = Inr (BuildsModel_merge now d m, [])"
| "BuildsModel_Update now SpinnerTickMsg m = Inr (m, if bm_loading m then [SpinnerTick] else [])"
| "BuildsModel_Update now (KeyMsg key) m = BuildsModel_key key m"
| "BuildsModel_Update now other m = Inr (m, [])"

text \<open>Sample states of the two browsing tabs, one per mode that has a level above it.\<close>

definition sampleJobDetail :: JobDetail where
  "sampleJobDetail =
     \<lparr>JobDetail_Name = ''demo'', JobDetail_URL = ''http://jenkins/job/demo/'',
      JobDetail_Builds =
        [\<lparr>BuildRef_Number = 6, BuildRef_Result = ''SUCCESS'', BuildRef_Timestamp = 500,
          BuildRef_Duration = 100, BuildRef_URL = ''http://jenkins/job/demo/6/''\<rparr>]\<rparr>"

definition viewsInJobs :: ViewsModel where
  "viewsInJobs =
     (NewViewsModel 80 24)\<lparr>vm_mode := ViewsModeJobs, vm_views := sampleViews, vm_selectedView := 1,
        vm_jobs := sampleJobs, vm_selectedJob := 1, vm_loading := False\<rparr>"

definition viewsInJobDetail :: ViewsModel where
  "viewsInJobDetail = viewsInJobs\<lparr>vm_mode := ViewsModeJobDetail, vm_jobDetail := Some sampleJobDetail\<rparr>"

definition buildsInBuildList :: BuildsModel where
  "buildsInBuildList =
     (NewBuildsModel 80 24)\<lparr>bm_mode := ModeBuildList, bm_jobs := sampleJobs,
        bm_jobDetail := Some sampleJobDetail, bm_builds := JobDetail_Builds sampleJobDetail,
        bm_totalBuilds := 1, bm_loading := False\<rparr>"

definition buildsInBuildDetail :: BuildsModel where
  "buildsInBuildDetail =
     buildsInBuildList\<lparr>bm_mode := ModeBuildDetail,
        bm_buildDetail := Some \<lparr>Build_Number = 6, Build_URL = ''http://jenkins/job/demo/6/''\<rparr>,
        bm_pipelineRun := Some \<lparr>PipelineRun_Stages =
           [\<lparr>Stage_ID = ''6'', Stage_Name = ''Checkout''\<rparr>, \<lparr>Stage_ID = ''9'', Stage_Name = ''Build''\<rparr>]\<rparr>,
        bm_selectedStage := 1\<rparr>"

definition buildsInLogView :: BuildsModel where
  "buildsInLogView =
     buildsInBuildDetail\<lparr>bm_mode := ModeLogView, bm_logContent := ''Started by user admin'',
        bm_logFilter := ''user''\<rparr>"

text \<open>
  A run of the tab: the messages are processed in order (each with its time), and the
  first panic ends the run.
\<close>

fun BuildsModel_run :: "(int \<times> msg) list \<Rightarrow> BuildsModel \<Rightarrow> panic + BuildsModel" where
  "BuildsModel_run [] m = Inr m"
| "BuildsModel_run ((now, x) # rest) m =
     (case BuildsModel_Update now x m of
        Inl p \<Rightarrow> Inl p
      | Inr (m', cmds) \<Rightarrow> BuildsModel_run rest m')"

text \<open>The message of \<open>fetchBuildDetail\<close> for a build whose pipeline has one stage.\<close>

definition oneStageBuildMsg :: msg where
  "oneStageBuildMsg =
     BuildsDataMsg
       \<lparr>bd_Jobs = None, bd_JobDetail = None,
        bd_BuildDetail = Some \<lparr>Build_Number = 6, Build_URL = ''http://jenkins/job/demo/6/''\<rparr>,
        bd_PipelineRun = Some \<lparr>PipelineRun_Stages = [\<lparr>Stage_ID = ''6'', Stage_Name = ''Checkout''\<rparr>]\<rparr>,
        bd_LogContent = [], bd_Error = None\<rparr>"

section \<open>Setup wizard\<close>

datatype SetupField = FieldURL | FieldUsername | FieldToken | FieldSubmit

record SetupModel =
  sm_width :: int
  sm_height :: int
  sm_urlInput :: string
  sm_usernameInput :: string
  sm_tokenInput :: string
  sm_focusedField :: SetupField
  sm_err :: "err option"
  sm_testing :: bool
  sm_testResult :: string

definition NewSetupModel :: SetupModel where
  "NewSetupModel =
     \<lparr>sm_width = 0, sm_height = 0, sm_urlInput = [], sm_usernameInput = [], sm_tokenInput = [],
      sm_focusedField = FieldURL, sm_err = None, sm_testing = False, sm_testResult = []\<rparr>"

definition nextField :: "SetupModel \<Rightarrow> SetupModel" where
  "nextField m =
     m\<lparr>sm_focusedField := (case sm_focusedField m of
          FieldURL \<Rightarrow> FieldUsername | FieldUsername \<Rightarrow> FieldToken
        | FieldToken \<Rightarrow> FieldSubmit | FieldSubmit \<Rightarrow> FieldURL)\<rparr>"

definition prevField :: "SetupModel \<Rightarrow> SetupModel" where
  "prevField m =
     m\<lparr>sm_focusedField := (case sm_focusedField m of
          FieldURL \<Rightarrow> FieldSubmit | FieldUsername \<Rightarrow> FieldURL
        | FieldToken \<Rightarrow> FieldUsername | FieldSubmit \<Rightarrow> FieldToken)\<rparr>"

definition isSpace :: "char \<Rightarrow> bool" where
  "isSpace c \<longleftrightarrow> (of_char c :: nat) \<in> {9, 10, 11, 12, 13, 32}"

definition TrimSpace :: "string \<Rightarrow> string" where
  "TrimSpace s = rev (dropWhile isSpace (rev (dropWhile isSpace s)))"

definition testAndSave :: "SetupModel \<Rightarrow> SetupModel \<times> cmd list" where
  "testAndSave m =
     (let url = TrimSpace (sm_urlInput m);
          username = TrimSpace (sm_usernameInput m);
          token = TrimSpace (sm_tokenInput m)
      in if url = [] \<or> username = [] \<or> token = []
         then (m\<lparr>sm_err := Some ''all fields are required'',
                 sm_testResult := ''All fields are required''\<rparr>, [])
         else (m\<lparr>sm_testing := True, sm_err := None, sm_testResult := []\<rparr>,
               [TestAndSave url username token]))"

definition updateFocusedInput :: "msg \<Rightarrow> SetupModel \<Rightarrow> SetupModel" where
  "updateFocusedInput x m =
     (case x of
        KeyMsg key \<Rightarrow>
          (case sm_focusedField m of
             FieldURL \<Rightarrow> m\<lparr>sm_urlInput := textinput_Update key (sm_urlInput m)\<rparr>
           | FieldUsername \<Rightarrow> m\<lparr>sm_usernameInput := textinput_Update key (sm_usernameInput m)\<rparr>
           | FieldToken \<Rightarrow> m\<lparr>sm_tokenInput := textinput_Update key (sm_tokenInput m)\<rparr>
           | FieldSubmit \<Rightarrow> m)
      | _ \<Rightarrow> m)"

definition SetupModel_Update :: "msg \<Rightarrow> SetupModel \<Rightarrow> SetupModel \<times> cmd list" where
  "SetupModel_Update x m =
     (case x of
        KeyMsg key \<Rightarrow>
          if key = ''ctrl+c'' then (m, [Quit])
          else if key = ''tab'' \<or> key = ''down'' then (nextField m, [])
          else if key = ''shift+tab'' \<or> key = ''up'' then (prevField m, [])
          else if key = ''enter'' then
            (if sm_focusedField m = FieldSubmit then testAndSave m else (nextField m, []))
          else (updateFocusedInput x m, [])
      | TestConnectionResult r \<Rightarrow>
          (case r of
             Some e \<Rightarrow>
               (m\<lparr>sm_testing := False, sm_err := Some e,
                  sm_testResult := ''Connection failed: '' @ e\<rparr>, [])
           | None \<Rightarrow>
               (m\<lparr>sm_testing := False, sm_testResult := ''Connection successful!''\<rparr>,
                [CompleteSetup (DefaultConfig\<lparr>Profile := (Profile DefaultConfig)
                    \<lparr>BaseURL := sm_urlInput m, Username := sm_usernameInput m,
                     APIToken := sm_tokenInput m\<rparr>\<rparr>)]))
      | _ \<Rightarrow> (updateFocusedInput x m, []))"

section \<open>Application controller\<close>

datatype TabID = TabDashboard | TabViews | TabBuilds

datatype AppState = StateSetup | StateLoading | StateReady | StateError

record Model =
  config :: Config
  client :: "Client option"
  state :: AppState
  activeTab :: TabID
  width :: int
  height :: int
  lastError :: "err option"
  setupModel :: "SetupModel option"
  dashboardModel :: "DashboardModel option"
  viewsModel :: "ViewsModel option"
  buildsModel :: "BuildsModel option"
  showHelp :: bool
  autoRefreshEnabled :: bool
  autoRefreshInterval :: "64 word"

text \<open>
  \<open>time.Duration\<close> is a signed 64-bit count of nanoseconds; its arithmetic wraps around
  and its comparisons are signed.
\<close>

definition Second :: "64 word" where
  "Second = 1000000000"

definition NewModel :: "Config \<Rightarrow> Model" where
  "NewModel cfg =
     (let refreshInterval = AutoRefreshSeconds (Profile cfg) * Second;
          refreshInterval = (if sint refreshInterval < sint (5 * Second)
                             then 10 * Second else refreshInterval);
          m = \<lparr>config = cfg, client = None, state = StateLoading, activeTab = TabDashboard,
               width = 0, height = 0, lastError = None, setupModel = None,
               dashboardModel = None, viewsModel = None, buildsModel = None,
               showHelp = False, autoRefreshEnabled = True,
               autoRefreshInterval = refreshInterval\<rparr>
      in if \<not> IsConfigured cfg
         then m\<lparr>state := StateSetup, setupModel := Some NewSetupModel\<rparr>
         else m)"

definition Init :: "Model \<Rightarrow> cmd list" where
  "Init m =
     [SpinnerTick] @
     (if state m = StateSetup then [Blink]
      else if state m = StateLoading then [InitializeClient]
      else [])"

definition initTabModels :: "Model \<Rightarrow> Model" where
  "initTabModels m =
     m\<lparr>dashboardModel := Some (NewDashboardModel (width m) (height m)),
       viewsModel := Some (NewViewsModel (width m) (height m)),
       buildsModel := Some (NewBuildsModel (width m) (height m))\<rparr>"

definition loadTabData :: "Model \<Rightarrow> Model \<times> cmd list" where
  "loadTabData m =
     (case activeTab m of
        TabDashboard \<Rightarrow>
          (case dashboardModel m of
             None \<Rightarrow> (m, [])
           | Some dm \<Rightarrow>
               (case DashboardModel_LoadData dm of
                  (dm', cmds) \<Rightarrow> (m\<lparr>dashboardModel := Some dm'\<rparr>, cmds)))
      | TabViews \<Rightarrow>
          (case viewsModel m of
             None \<Rightarrow> (m, [])
           | Some vm \<Rightarrow>
               (case ViewsModel_LoadData vm of
                  (vm', cmds) \<Rightarrow> (m\<lparr>viewsModel := Some vm'\<rparr>, cmds)))
      | TabBuilds \<Rightarrow>
          (case buildsModel m of
             None \<Rightarrow> (m, [])
           | Some bm \<Rightarrow>
               (case BuildsModel_LoadData bm of
                  (bm', cmds) \<Rightarrow> (m\<lparr>buildsModel := Some bm'\<rparr>, cmds))))"

definition updateActiveTab :: "int \<Rightarrow> msg \<Rightarrow> Model \<Rightarrow> panic + Model \<times> cmd list" where
  "updateActiveTab now x m =
     (case activeTab m of
        TabDashboard \<Rightarrow>
          (case dashboardModel m of
             None \<Rightarrow> Inr (m, [])
           | Some dm \<Rightarrow>
               (case DashboardModel_Update now x dm of
                  (dm', cmds) \<Rightarrow> Inr (m\<lparr>dashboardModel := Some dm'\<rparr>, cmds)))
      | TabViews \<Rightarrow>
          (case viewsModel m of
             None \<Rightarrow> Inr (m, [])
           | Some vm \<Rightarrow>
               (case ViewsModel_Update now x vm of
                  Inl p \<Rightarrow> Inl p
                | Inr (vm', cmds) \<Rightarrow> Inr (m\<lparr>viewsModel := Some vm'\<rparr>, cmds)))
      | TabBuilds \<Rightarrow>
          (case buildsModel m of
             None \<Rightarrow> Inr (m, [])
           | Some bm \<Rightarrow>
               (case BuildsModel_Update now x bm of
                  Inl p \<Rightarrow> Inl p
                | Inr (bm', cmds) \<Rightarrow> Inr (m\<lparr>buildsModel := Some bm'\<rparr>, cmds))))"

definition scheduleAutoRefresh :: "Model \<Rightarrow> cmd list" where
  "scheduleAutoRefresh m =
     (if \<not> autoRefreshEnabled m \<or> sint (autoRefreshInterval m) \<le> 0 then []
      else [Tick (autoRefreshInterval m)])"

definition nextTab :: "TabID \<Rightarrow> TabID" where
  "nextTab t = (case t of TabDashboard \<Rightarrow> TabViews | TabViews \<Rightarrow> TabBuilds | TabBuilds \<Rightarrow> TabDashboard)"

definition prevTab :: "TabID \<Rightarrow> TabID" where
  "prevTab t = (case t of TabDashboard \<Rightarrow> TabBuilds | TabViews \<Rightarrow> TabDashboard | TabBuilds \<Rightarrow> TabViews)"

text \<open>
  The global key handling of \<open>Model.Update\<close>: \<open>Some\<close> is a \<open>return\<close> inside the
  \<open>switch\<close>, \<open>None\<close> is falling through to the delegation below it.
\<close>

definition globalKey :: "string \<Rightarrow> Model \<Rightarrow> (Model \<times> cmd list) option" where
  "globalKey key m =
     (if key = ''ctrl+c'' \<or> key = ''q'' then
        (if state m \<noteq> StateSetup then Some (m, [Quit]) else None)
      else if key = ''r'' then
        (if state m = StateError
         then Some (m\<lparr>state := StateLoading, lastError := None\<rparr>, [InitializeClient])
         else None)
      else if key = ''?'' then
        (if state m = StateReady then Some (m\<lparr>showHelp := \<not> showHelp m\<rparr>, []) else None)
      else if key = ''ctrl+r'' then
        (if state m = StateReady then
           let m = m\<lparr>autoRefreshEnabled := \<not> autoRefreshEnabled m\<rparr>
           in Some (m, if autoRefreshEnabled m then scheduleAutoRefresh m else [])
         else None)
      else if key = ''tab'' then
        (if state m = StateReady \<and> \<not> showHelp m
         then Some (loadTabData (m\<lparr>activeTab := nextTab (activeTab m)\<rparr>)) else None)
      else if key = ''shift+tab'' then
        (if state m = StateReady \<and> \<not> showHelp m
         then Some (loadTabData (m\<lparr>activeTab := prevTab (activeTab m)\<rparr>)) else None)
      else if key = ''1'' then
        (if state m = StateReady then Some (loadTabData (m\<lparr>activeTab := TabDashboard\<rparr>)) else None)
      else if key = ''2'' then
        (if state m = StateReady then Some (loadTabData (m\<lparr>activeTab := TabViews\<rparr>)) else None)
      else if key = ''3'' then
        (if state m = StateReady then Some (loadTabData (m\<lparr>activeTab := TabBuilds\<rparr>)) else None)
      else if key = ''esc'' then
        (if showHelp m then Some (m\<lparr>showHelp := False\<rparr>, []) else None)
      else None)"

text \<open>The delegation at the end of \<open>Model.Update\<close>, with the commands collected so far.\<close>

definition delegate :: "int \<Rightarrow> msg \<Rightarrow> cmd list \<Rightarrow> Model \<Rightarrow> panic + Model \<times> cmd list" where
  "delegate now x cmds m =
     (case state m of
        StateSetup \<Rightarrow>
          (case setupModel m of
             None \<Rightarrow> Inr (m, cmds)
           | Some sm \<Rightarrow>
               (case SetupModel_Update x sm of
                  (sm', cmd) \<Rightarrow> Inr (m\<lparr>setupModel := Some sm'\<rparr>, cmds @ cmd)))
      | StateReady \<Rightarrow>
          (case updateActiveTab now x m of
             Inl p \<Rightarrow> Inl p
           | Inr (m', cmd) \<Rightarrow> Inr (m', cmds @ cmd))
      | StateLoading \<Rightarrow> Inr (m, cmds)
      | StateError \<Rightarrow> Inr (m, cmds))"

definition setSizes :: "int \<Rightarrow> int \<Rightarrow> Model \<Rightarrow> Model" where
  "setSizes w h m =
     m\<lparr>width := w, height := h,
       setupModel := map_option (\<lambda>sm. sm\<lparr>sm_width := w, sm_height := h\<rparr>) (setupModel m),
       dashboardModel := map_option (\<lambda>dm. dm\<lparr>dm_width := w, dm_height := h\<rparr>) (dashboardModel m),
       viewsModel := map_option (\<lambda>vm. vm\<lparr>vm_width := w, vm_height := h\<rparr>) (viewsModel m),
       buildsModel := map_option (\<lambda>bm. bm\<lparr>bm_width := w, bm_height := h\<rparr>) (buildsModel m)\<rparr>"

text \<open>
  What \<open>Model.Update\<close> reads from outside: the clock (\<open>time.Now\<close> in the tab models)
  and the result of \<open>config.Save\<close>.
\<close>

record world =
  clock :: int
  configSave :: "Config \<Rightarrow> err option"

definition Model_Update :: "world \<Rightarrow> msg \<Rightarrow> Model \<Rightarrow> panic + Model \<times> cmd list" where
  "Model_Update w x m =
     (case x of
        KeyMsg key \<Rightarrow>
          (case globalKey key m of
             Some r \<Rightarrow> Inr r
           | None \<Rightarrow> delegate (clock w) x [] m)
      | WindowSizeMsg wd ht \<Rightarrow> Inr (setSizes wd ht m, [])
      | SetupCompleteMsg cfg \<Rightarrow>
          let m = m\<lparr>config := cfg\<rparr> in
          (case configSave w cfg of
             Some e \<Rightarrow> Inr (m\<lparr>lastError := Some e, state := StateError\<rparr>, [])
           | None \<Rightarrow> Inr (m\<lparr>state := StateLoading, setupModel := None\<rparr>, [InitializeClient]))
      | ClientReadyMsg c \<Rightarrow>
          let m = initTabModels (m\<lparr>client := Some c, state := StateReady\<rparr>)
          in (case loadTabData m of (m', cmds) \<Rightarrow> Inr (m', cmds @ scheduleAutoRefresh m'))
      | ClientErrorMsg e \<Rightarrow> Inr (m\<lparr>lastError := Some e, state := StateError\<rparr>, [])
      | AutoRefreshTickMsg \<Rightarrow>
          if state m = StateReady \<and> autoRefreshEnabled m
          then (case loadTabData m of (m', cmds) \<Rightarrow> Inr (m', cmds @ scheduleAutoRefresh m'))
          else Inr (m, [])
      | SpinnerTickMsg \<Rightarrow> delegate (clock w) x [SpinnerTick] m
      | _ \<Rightarrow> delegate (clock w) x [] m)"

text \<open>
  How the Bubble Tea runtime runs a batch: every command of the batch is started when
  \<open>Update\<close> returns, and the commands run concurrently. \<open>tea.Tick d\<close> delivers its
  message \<open>d\<close> after it is started; any other command delivers its message when its
  work is done, after the time \<open>latency\<close> gives for it. \<open>deliveries\<close> pairs each
  command of a batch started at time \<open>t\<close> (nanoseconds) with the time at which its
  message is delivered.
\<close>

definition deliveryTime :: "int \<Rightarrow> (cmd \<Rightarrow> int) \<Rightarrow> cmd \<Rightarrow> int" where
  "deliveryTime t latency c = (case c of Tick d \<Rightarrow> t + sint d | _ \<Rightarrow> t + latency c)"

definition deliveries :: "int \<Rightarrow> (cmd \<Rightarrow> int) \<Rightarrow> cmd list \<Rightarrow> (int \<times> cmd) list" where
  "deliveries t latency cmds = map (\<lambda>c. (deliveryTime t latency c, c)) cmds"

text \<open>
  Sample states: the application right after the client became ready (a terminal of
  80 by 24, the sample configuration with the default refresh interval of 10 seconds),
  and the sample configuration with another refresh interval.
\<close>

definition sampleWorld :: world where
  "sampleWorld = \<lparr>clock = 1000, configSave = (\<lambda>cfg. None)\<rparr>"

definition readyModel :: Model where
  "readyModel =
     initTabModels ((NewModel mockConfig)\<lparr>client := Some mockClient, state := StateReady,
        width := 80, height := 24\<rparr>)"

definition refreshConfig :: "go_int \<Rightarrow> Config" where
  "refreshConfig secs = mockConfig\<lparr>Profile := (Profile mockConfig)\<lparr>AutoRefreshSeconds := secs\<rparr>\<rparr>"

definition errorOnlyViewsData :: "err \<Rightarrow> ViewsData" where
  "errorOnlyViewsData e = \<lparr>vd_Views = None, vd_Jobs = None, vd_JobDetail = None, vd_Error = Some e\<rparr>"

definition errorOnlyDashboardData :: "err \<Rightarrow> DashboardData" where
  "errorOnlyDashboardData e =
     \<lparr>dd_RootInfo = None, dd_Nodes = None, dd_Queue = None, dd_Jobs = None, dd_Error = Some e\<rparr>"

text \<open>
  \<open>GetRootInfo\<close> returns \<open>&info, err\<close>: when the call fails, the message of
  \<open>fetchRootInfo\<close> carries the error together with a pointer to the zero-valued struct.
\<close>

definition zeroRootInfo :: RootInfo where
  "zeroRootInfo =
     \<lparr>RootInfo_Mode = [], RootInfo_NodeName = [], RootInfo_NumExecutors = 0,
      RootInfo_UseCrumbs = False\<rparr>"

definition failedRootInfoMsg :: "err \<Rightarrow> DashboardData" where
  "failedRootInfoMsg e = rootInfoMsg zeroRootInfo (Some e)"

section \<open>Path construction: proofs\<close>

lemma range_loop_fills:
  "k + length xs \<le> length enc \<Longrightarrow>
   fold (\<lambda>(i, part) e. e[i := f part]) (enumerate k xs) enc
     = take k enc @ map f xs @ drop (k + length xs) enc"
proof (induction xs arbitrary: k enc)
  case Nil
  then show ?case by simp
next
  case (Cons x xs)
  have len: "Suc k + length xs \<le> length (enc[k := f x])"
    using Cons.prems by simp
  have k: "k < length enc"
    using Cons.prems by simp
  have "take (Suc k) (enc[k := f x]) = take k enc @ [f x]"
    using k by (simp add: take_Suc_conv_app_nth)
  moreover have "drop (Suc k + length xs) (enc[k := f x]) = drop (Suc (k + length xs)) enc"
    by simp
  ultimately show ?case
    using Cons.IH [OF len] by simp
qed

lemma Split_nonempty: "Split s sep \<noteq> []"
  by (induction s) (auto split: list.splits)

text \<open>
  C8: the URL path of an item name is the \<open>/job/\<close>-join of the individually
  percent-escaped \<open>/\<close>-separated segments of the name.
\<close>

theorem encodeJobPath_is_join_map_split:
  "encodeJobPath s = encodeJobPath_spec s"
  unfolding encodeJobPath_def encodeJobPath_spec_def Let_def
  using range_loop_fills [of 0 "Split s CHR ''/''" "replicate (length (Split s CHR ''/'')) []" PathEscape]
  by simp

text \<open>The cases of \<open>TestEncodeJobPath\<close> (client\_test.go).\<close>

lemma encodeJobPath_simple: "encodeJobPath ''simple-job'' = ''simple-job''"
  by code_simp

lemma encodeJobPath_folder: "encodeJobPath ''folder/job'' = ''folder/job/job''"
  by code_simp

lemma encodeJobPath_spaces: "encodeJobPath ''my folder/my job'' = ''my%20folder/job/my%20job''"
  by code_simp


section \<open>Crumb negotiation: proofs\<close>

lemma newRequest_waits [simp]: "newRequest E (c\<lparr>waits := w\<rparr>) m p = newRequest E c m p"
  by (simp add: newRequest_def Let_def cong: if_cong)

lemma newRequest_sent [simp]: "newRequest E (c\<lparr>sent := s\<rparr>) m p = newRequest E c m p"
  by (simp add: newRequest_def Let_def cong: if_cong)

lemma newRequest_tested [simp]: "newRequest E (c\<lparr>crumbTested := b\<rparr>) m p = newRequest E c m p"
  by (simp add: newRequest_def Let_def cong: if_cong)

lemma newRequest_URL [simp]: "URL (newRequest E c m p) = baseURL c @ p"
  by (simp add: newRequest_def Let_def)

lemma newRequest_Method [simp]: "Method (newRequest E c m p) = m"
  by (simp add: newRequest_def Let_def)

lemma doRequest_no_negotiation:
  "crumbTested c \<or> m = MethodGet \<Longrightarrow> doRequest E c m p = oneAttempt E c m p"
  by (subst doRequest.simps) (auto simp: oneAttempt_def Let_def split: outcome.splits)

lemma fetchCrumb_unfold:
  "fetchCrumb E c =
     (case oneAttempt E (c\<lparr>crumbTested := True\<rparr>) MethodGet crumbIssuerPath of
        (c2, Inl e) \<Rightarrow> (c2, Some e)
      | (c2, Inr resp) \<Rightarrow>
          if StatusCode resp \<noteq> 200 then (c2, Some (CrumbIssuerStatus (StatusCode resp)))
          else (case decodeCrumb E (Body resp) of
                  None \<Rightarrow> (c2, Some CrumbDecodeError)
                | Some (cr, fld) \<Rightarrow> (c2\<lparr>crumb := cr, crumbField := fld\<rparr>, None)))"
  by (subst fetchCrumb.simps) (simp add: doRequest_no_negotiation)

lemma oneAttempt_frame:
  assumes "oneAttempt E c m p = (c', r)"
  shows "baseURL c' = baseURL c \<and> crumbTested c' = crumbTested c \<and>
         crumb c' = crumb c \<and> crumbField c' = crumbField c \<and>
         waits c' = Suc (waits c) \<and>
         (sent c' = sent c \<or> sent c' = sent c @ [newRequest E c m p])"
  using assms
  by (auto simp: oneAttempt_def Let_def split: if_splits outcome.splits)

lemma crumbCalls_oneAttempt:
  assumes "oneAttempt E c m p = (c', r)"
  shows "crumbCalls c' \<le> Suc (crumbCalls c)"
    and "p \<noteq> crumbIssuerPath \<Longrightarrow> crumbCalls c' = crumbCalls c"
  using oneAttempt_frame [OF assms]
  by (auto simp: crumbCalls_def)

lemma fetchCrumb_frame:
  assumes "fetchCrumb E c = (c', r)"
  shows "baseURL c' = baseURL c \<and> crumbTested c' \<and> crumbCalls c' \<le> Suc (crumbCalls c)"
proof -
  obtain c2 r2 where one: "oneAttempt E (c\<lparr>crumbTested := True\<rparr>) MethodGet crumbIssuerPath = (c2, r2)"
    by (cases "oneAttempt E (c\<lparr>crumbTested := True\<rparr>) MethodGet crumbIssuerPath")
  have calls: "crumbCalls c2 \<le> Suc (crumbCalls (c\<lparr>crumbTested := True\<rparr>))"
    by (rule crumbCalls_oneAttempt(1) [OF one])
  have same: "crumbCalls (c\<lparr>crumbTested := True\<rparr>) = crumbCalls c"
    by (simp add: crumbCalls_def)
  have fr: "baseURL c2 = baseURL c \<and> crumbTested c2"
    using oneAttempt_frame [OF one] by simp
  have "baseURL c' = baseURL c2 \<and> crumbTested c' = crumbTested c2 \<and> sent c' = sent c2"
    using assms one
    by (auto simp: fetchCrumb_unfold split: sum.splits if_splits option.splits)
  then show ?thesis
    using calls same fr by (simp add: crumbCalls_def)
qed

text \<open>
  The invariant of a client's life: no request has reached the crumb issuer while
  \<open>crumbTested\<close> is false, and at most one has afterwards.
\<close>

definition negotiatedOnce :: "Client \<Rightarrow> bool" where
  "negotiatedOnce c \<longleftrightarrow> (\<not> crumbTested c \<longrightarrow> crumbCalls c = 0) \<and> crumbCalls c \<le> 1"

lemma doRequest_negotiatedOnce:
  assumes inv: "negotiatedOnce c"
      and path: "p \<noteq> crumbIssuerPath"
      and run: "doRequest E c m p = (c', r)"
  shows "negotiatedOnce c'"
proof (cases "crumbTested c \<or> m = MethodGet")
  case True
  then have one: "oneAttempt E c m p = (c', r)"
    using run by (simp add: doRequest_no_negotiation)
  show ?thesis
    using inv crumbCalls_oneAttempt(2) [OF one path] oneAttempt_frame [OF one]
    by (simp add: negotiatedOnce_def)
next
  case False
  then have untested: "\<not> crumbTested c" and post: "m \<noteq> MethodGet"
    by simp_all
  have zero: "crumbCalls c = 0"
    using inv untested by (simp add: negotiatedOnce_def)
  obtain c2 r2 where one: "oneAttempt E c m p = (c2, r2)"
    by (cases "oneAttempt E c m p")
  have c2: "crumbCalls c2 = 0" "\<not> crumbTested c2"
    using crumbCalls_oneAttempt(2) [OF one path] oneAttempt_frame [OF one] zero untested
    by simp_all
  show ?thesis
  proof (cases "r2 = Inl AccessForbidden \<and> c' \<noteq> c2")
    case False
    then have "c' = c2"
      using run one untested post
      by (subst (asm) doRequest.simps)
         (auto simp: oneAttempt_def Let_def split: if_splits outcome.splits prod.splits option.splits)
    then show ?thesis
      using c2 by (simp add: negotiatedOnce_def)
  next
    case True
    obtain c3 r3 where fc: "fetchCrumb E c2 = (c3, r3)"
      by (cases "fetchCrumb E c2")
    have c3: "crumbTested c3" "crumbCalls c3 \<le> 1"
      using fetchCrumb_frame [OF fc] c2 by simp_all
    have "c' = c3 \<or> (\<exists>r'. oneAttempt E c3 m p = (c', r'))"
      using run one untested post fc c3(1) True
      by (subst (asm) doRequest.simps)
         (auto simp: oneAttempt_def Let_def doRequest_no_negotiation
               split: if_splits outcome.splits prod.splits option.splits)
    then show ?thesis
    proof
      assume "c' = c3"
      then show ?thesis using c3 by (simp add: negotiatedOnce_def)
    next
      assume "\<exists>r'. oneAttempt E c3 m p = (c', r')"
      then obtain r' where retry: "oneAttempt E c3 m p = (c', r')" ..
      show ?thesis
        using crumbCalls_oneAttempt(2) [OF retry path] oneAttempt_frame [OF retry] c3
        by (simp add: negotiatedOnce_def)
    qed
  qed
qed

lemma requests_negotiatedOnce:
  "negotiatedOnce c \<Longrightarrow> \<forall>(m, p) \<in> set reqs. p \<noteq> crumbIssuerPath \<Longrightarrow>
   negotiatedOnce (fst (requests E c reqs))"
proof (induction reqs arbitrary: c)
  case Nil
  then show ?case by simp
next
  case (Cons mp reqs)
  obtain m p where mp: "mp = (m, p)" by (cases mp)
  obtain c' r where run: "doRequest E c m p = (c', r)" by (cases "doRequest E c m p")
  have "negotiatedOnce c'"
    using doRequest_negotiatedOnce [OF Cons.prems(1) _ run] Cons.prems(2) mp by simp
  then have "negotiatedOnce (fst (requests E c' reqs))"
    using Cons.IH Cons.prems(2) by simp
  then show ?case
    using mp run by (simp add: case_prod_beta)
qed

lemma NewClient_negotiatedOnce: "NewClient cfg = Inr c \<Longrightarrow> negotiatedOnce c"
  by (auto simp: NewClient_def negotiatedOnce_def crumbCalls_def split: option.splits)


text \<open>
  \<open>doRequest\<close> without its recursion: one attempt; on a 403 for a non-GET verb with
  \<open>crumbTested\<close> false, \<open>fetchCrumb\<close> and, if that returned no error, one more attempt.
\<close>

lemma oneAttempt_forbidden_iff:
  "snd (oneAttempt E c m p) = Inl AccessForbidden \<longleftrightarrow>
     limiterWait E (waits c) \<and> newRequestOk E m (baseURL c @ p) \<and>
     (\<exists>resp. roundTrip E (sent c) (newRequest E c m p) = Replied resp \<and> StatusCode resp = 403)"
  by (auto simp: oneAttempt_def Let_def split: outcome.splits)

lemma oneAttempt_sent:
  "limiterWait E (waits c) \<Longrightarrow> newRequestOk E m (baseURL c @ p) \<Longrightarrow>
   sent (fst (oneAttempt E c m p)) = sent c @ [newRequest E c m p]"
  by (simp add: oneAttempt_def Let_def split: outcome.splits)

lemma doRequest_unfold:
  "doRequest E c m p =
     (case oneAttempt E c m p of
        (c2, r) \<Rightarrow>
          if r = Inl AccessForbidden \<and> \<not> crumbTested c \<and> m \<noteq> MethodGet
          then (case fetchCrumb E c2 of
                  (c3, None) \<Rightarrow> oneAttempt E c3 m p
                | (c3, Some e) \<Rightarrow> (c3, Inl AccessForbidden))
          else (c2, r))"
proof (cases "crumbTested c \<or> m = MethodGet")
  case True
  then show ?thesis
    by (auto simp: doRequest_no_negotiation split: prod.splits)
next
  case False
  have retry: "doRequest E c3 m p = oneAttempt E c3 m p" if "fetchCrumb E c2 = (c3, r3)" for c2 c3 r3
    using fetchCrumb_frame [OF that] by (simp add: doRequest_no_negotiation)
  show ?thesis
    using False
    by (subst doRequest.simps)
       (auto simp: oneAttempt_def Let_def retry split: outcome.splits prod.splits option.splits)
qed

lemma NewClient_mock: "NewClient (Some mockConfig) = Inr mockClient"
  by (simp add: NewClient_def mockConfig_def DefaultConfig_def mockClient_def
      TrimSuffix_def HasSuffix_def)

lemma buildPath_not_issuer: "buildPath \<noteq> crumbIssuerPath"
  by (simp add: buildPath_def crumbIssuerPath_def)

lemmas mock_defs =
  mockEnv_def mockClient_def alwaysForbidden_def crumbServer_def crumbBody_def buildPath_def
  MethodPost_def MethodGet_def crumbIssuerPath_def

lemmas client_eval =
  doRequest_unfold fetchCrumb_unfold oneAttempt_def newRequest_def Header_Set_def Let_def

text \<open>
  Scenario C of the specification: against the server that always answers 403, a POST
  puts on the wire the POST and one GET to the crumb issuer, and fails with the 403
  error; a second POST afterwards puts one more POST on the wire and nothing else.
\<close>

lemma scenario_always_forbidden:
  "snd (doRequest (mockEnv alwaysForbidden) mockClient MethodPost buildPath) = Inl AccessForbidden"
  "map (\<lambda>r. (Method r, URL r))
     (sent (fst (doRequest (mockEnv alwaysForbidden) mockClient MethodPost buildPath))) =
     [(''POST'', ''http://jenkins/job/demo/build''),
      (''GET'', ''http://jenkins/crumbIssuer/api/json'')]"
  by (simp_all add: client_eval mock_defs)

lemma scenario_always_forbidden_twice:
  "snd (requests (mockEnv alwaysForbidden) mockClient
          [(MethodPost, buildPath), (MethodPost, buildPath)]) =
     [Inl AccessForbidden, Inl AccessForbidden]"
  "map (\<lambda>r. (Method r, URL r))
     (sent (fst (requests (mockEnv alwaysForbidden) mockClient
          [(MethodPost, buildPath), (MethodPost, buildPath)]))) =
     [(''POST'', ''http://jenkins/job/demo/build''),
      (''GET'', ''http://jenkins/crumbIssuer/api/json''),
      (''POST'', ''http://jenkins/job/demo/build'')]"
  by (simp_all add: client_eval mock_defs)

text \<open>
  Scenario B of the specification: the POST is answered 403, the crumb issuer answers
  200 with crumb \<open>abc\<close> for field \<open>X-Crumb\<close>, and the retried POST carries
  \<open>X-Crumb: abc\<close> and succeeds.
\<close>

lemma scenario_crumb_retry:
  "snd (doRequest (mockEnv (crumbServer 200)) mockClient MethodPost buildPath) =
     Inr \<lparr>StatusCode = 201, Body = []\<rparr>"
  "map (\<lambda>r. (Method r, URL r, map_of (Header r) ''X-Crumb''))
     (sent (fst (doRequest (mockEnv (crumbServer 200)) mockClient MethodPost buildPath))) =
     [(''POST'', ''http://jenkins/job/demo/build'', None),
      (''GET'', ''http://jenkins/crumbIssuer/api/json'', None),
      (''POST'', ''http://jenkins/job/demo/build'', Some ''abc'')]"
  by (simp_all add: client_eval mock_defs)


text \<open>
  C1: over the life of one client (from \<open>NewClient\<close>, through any sequence of API
  requests), at most one request is ever sent to the crumb issuer; and once negotiation
  has run (\<open>crumbTested\<close> is set, whether it succeeded or failed), a request answered
  403 returns the authorisation error directly: exactly that one request is sent, with
  no negotiation and no retry.
\<close>

theorem crumb_negotiation_at_most_once:
  assumes init: "NewClient cfg = Inr c0"
      and paths: "list_all (\<lambda>(m, p). p \<noteq> crumbIssuerPath) reqs"
      and reached: "c = fst (requests E c0 reqs)"
  shows "crumbCalls c \<le> 1 \<and>
         (crumbTested c \<and> limiterWait E (waits c) \<and> newRequestOk E m (baseURL c @ p) \<and>
          roundTrip E (sent c) (newRequest E c m p) = Replied resp \<and> StatusCode resp = 403
          \<longrightarrow> doRequest E c m p =
                (c\<lparr>waits := Suc (waits c), sent := sent c @ [newRequest E c m p]\<rparr>,
                 Inl AccessForbidden))"
proof
  have "\<forall>(m, p) \<in> set reqs. p \<noteq> crumbIssuerPath"
    using paths by (simp add: list_all_iff)
  then have "negotiatedOnce c"
    using requests_negotiatedOnce [OF NewClient_negotiatedOnce [OF init]] reached by simp
  then show "crumbCalls c \<le> 1"
    by (simp add: negotiatedOnce_def)
next
  show "crumbTested c \<and> limiterWait E (waits c) \<and> newRequestOk E m (baseURL c @ p) \<and>
          roundTrip E (sent c) (newRequest E c m p) = Replied resp \<and> StatusCode resp = 403
          \<longrightarrow> doRequest E c m p =
                (c\<lparr>waits := Suc (waits c), sent := sent c @ [newRequest E c m p]\<rparr>,
                 Inl AccessForbidden)"
    by (simp add: doRequest_no_negotiation oneAttempt_def Let_def)
qed

theorem crumb_negotiation_at_most_once_witness:
  "NewClient (Some mockConfig) = Inr mockClient \<and>
   list_all (\<lambda>(m, p). p \<noteq> crumbIssuerPath) [(MethodPost, buildPath)] \<and>
   crumbTested (fst (requests (mockEnv alwaysForbidden) mockClient [(MethodPost, buildPath)])) \<and>
   crumbCalls (fst (requests (mockEnv alwaysForbidden) mockClient [(MethodPost, buildPath)])) \<le> 1 \<and>
   snd (doRequest (mockEnv alwaysForbidden)
          (fst (requests (mockEnv alwaysForbidden) mockClient [(MethodPost, buildPath)]))
          MethodPost buildPath) = Inl AccessForbidden \<and>
   length (sent (fst (doRequest (mockEnv alwaysForbidden)
          (fst (requests (mockEnv alwaysForbidden) mockClient [(MethodPost, buildPath)]))
          MethodPost buildPath))) = 3"
proof -
  let ?E = "mockEnv alwaysForbidden"
  let ?c = "fst (requests ?E mockClient [(MethodPost, buildPath)])"
  have paths: "list_all (\<lambda>(m, p). p \<noteq> crumbIssuerPath) [(MethodPost, buildPath)]"
    by (simp add: buildPath_not_issuer)
  have tested: "crumbTested ?c"
    by (simp add: client_eval mock_defs)
  have len: "length (sent ?c) = 2"
    by (simp add: client_eval mock_defs)
  have env: "limiterWait ?E (waits ?c)" "newRequestOk ?E MethodPost (baseURL ?c @ buildPath)"
    "roundTrip ?E (sent ?c) (newRequest ?E ?c MethodPost buildPath)
       = Replied \<lparr>StatusCode = 403, Body = []\<rparr>"
    by (simp_all add: mockEnv_def alwaysForbidden_def)
  note inst = crumb_negotiation_at_most_once [OF NewClient_mock paths refl,
      of ?E MethodPost buildPath "\<lparr>StatusCode = 403, Body = []\<rparr>"]
  from inst have calls: "crumbCalls ?c \<le> 1" by simp
  from inst tested env have run:
    "doRequest ?E ?c MethodPost buildPath =
       (?c\<lparr>waits := Suc (waits ?c), sent := sent ?c @ [newRequest ?E ?c MethodPost buildPath]\<rparr>,
        Inl AccessForbidden)"
    by simp
  have res3: "snd (doRequest ?E ?c MethodPost buildPath) = Inl AccessForbidden"
    using run by simp
  have len3: "length (sent (fst (doRequest ?E ?c MethodPost buildPath))) = 3"
    using run len by simp
  show ?thesis
    by (intro conjI) (rule NewClient_mock paths tested calls res3 len3)+
qed

text \<open>
  C2, as the code has it: a non-GET request is answered 403 while \<open>crumbTested\<close> is
  false; the GET to the crumb issuer is answered with status 200 and a body that decodes
  to a non-empty crumb and a non-empty field name (which is not the \<open>Accept\<close> field, set
  after it); the limiter admits the three attempts. Then both values are cached, exactly
  three requests are sent (the original, the crumb GET and one retry of the original),
  and the retry carries the cached crumb under the cached field name.
\<close>

theorem crumb_cached_and_request_retried_once:
  assumes untested: "\<not> crumbTested c" and mutating: "m \<noteq> MethodGet"
      and w1: "limiterWait E (waits c)" and ok1: "newRequestOk E m (baseURL c @ p)"
      and r1: "roundTrip E (sent c) (newRequest E c m p) = Replied resp1"
      and s1: "StatusCode resp1 = 403"
      and w2: "limiterWait E (Suc (waits c))"
      and ok2: "newRequestOk E MethodGet (baseURL c @ crumbIssuerPath)"
      and r2: "roundTrip E (sent c @ [newRequest E c m p])
                 (newRequest E c MethodGet crumbIssuerPath) = Replied resp2"
      and s2: "StatusCode resp2 = 200"
      and dec: "decodeCrumb E (Body resp2) = Some (cr, fld)"
      and ne: "cr \<noteq> []" "fld \<noteq> []"
      and acc: "canonicalKey E fld \<noteq> canonicalKey E ''Accept''"
      and w3: "limiterWait E (Suc (Suc (waits c)))"
  shows "\<exists>c' res retry.
           doRequest E c m p = (c', res) \<and>
           crumb c' = cr \<and> crumbField c' = fld \<and>
           sent c' = sent c @ [newRequest E c m p,
                               newRequest E c MethodGet crumbIssuerPath, retry] \<and>
           Method retry = m \<and> URL retry = baseURL c @ p \<and>
           Header_Get E (Header retry) fld = Some cr"
proof -
  let ?c2 = "c\<lparr>waits := Suc (waits c), sent := sent c @ [newRequest E c m p]\<rparr>"
  let ?c3 = "c\<lparr>waits := Suc (Suc (waits c)),
               sent := sent c @ [newRequest E c m p, newRequest E c MethodGet crumbIssuerPath],
               crumbTested := True, crumb := cr, crumbField := fld\<rparr>"
  let ?retry = "newRequest E (c\<lparr>crumb := cr, crumbField := fld\<rparr>) m p"
  have retry: "newRequest E ?c3 m p = ?retry"
    by (simp add: newRequest_def Let_def cong: if_cong)
  have first: "oneAttempt E c m p = (?c2, Inl AccessForbidden)"
    using w1 ok1 r1 s1 by (simp add: oneAttempt_def Let_def)
  have fetch: "fetchCrumb E ?c2 = (?c3, None)"
    using w2 ok2 r2 s2 dec by (simp add: fetchCrumb_unfold oneAttempt_def Let_def)
  have s1': "StatusCode resp1 \<noteq> 401" "StatusCode resp2 \<noteq> 401" "StatusCode resp2 \<noteq> 403"
    using s1 s2 by simp_all
  have run: "doRequest E c m p = oneAttempt E ?c3 m p"
    using untested mutating by (simp add: doRequest_unfold first fetch)
  obtain c' res where last: "oneAttempt E ?c3 m p = (c', res)"
    by (cases "oneAttempt E ?c3 m p")
  have kept: "crumb c' = cr" "crumbField c' = fld"
    using oneAttempt_frame [OF last] by simp_all
  have "sent c' = sent ?c3 @ [newRequest E ?c3 m p]"
    using oneAttempt_sent [of E ?c3 m p] last w3 ok1 by simp
  then have frame: "sent c' = sent ?c3 @ [?retry]"
    using retry by simp
  note frame = kept frame
  have hdr: "Header_Get E (Header ?retry) fld = Some cr"
    using mutating ne acc
    by (simp add: newRequest_def Header_Get_def Header_Set_def Let_def update_conv')
  show ?thesis
    using run last frame hdr by simp
qed

theorem crumb_cached_and_request_retried_once_witness:
  "\<not> crumbTested mockClient \<and> MethodPost \<noteq> MethodGet \<and>
   StatusCode \<lparr>StatusCode = 403, Body = []\<rparr> = 403 \<and>
   StatusCode \<lparr>StatusCode = 200, Body = crumbBody\<rparr> = 200 \<and>
   decodeCrumb (mockEnv (crumbServer 200)) crumbBody = Some (''abc'', ''X-Crumb'') \<and>
   (\<exists>c' res retry.
      doRequest (mockEnv (crumbServer 200)) mockClient MethodPost buildPath = (c', res) \<and>
      crumb c' = ''abc'' \<and> crumbField c' = ''X-Crumb'' \<and>
      sent c' = sent mockClient @
        [newRequest (mockEnv (crumbServer 200)) mockClient MethodPost buildPath,
         newRequest (mockEnv (crumbServer 200)) mockClient MethodGet crumbIssuerPath, retry] \<and>
      Method retry = MethodPost \<and> URL retry = baseURL mockClient @ buildPath \<and>
      Header_Get (mockEnv (crumbServer 200)) (Header retry) ''X-Crumb'' = Some ''abc'')"
proof -
  let ?E = "mockEnv (crumbServer 200)"
  have h1: "\<not> crumbTested mockClient" "MethodPost \<noteq> MethodGet"
    by (simp_all add: mockClient_def MethodPost_def MethodGet_def)
  have h2: "limiterWait ?E (waits mockClient)"
    "newRequestOk ?E MethodPost (baseURL mockClient @ buildPath)"
    "limiterWait ?E (Suc (waits mockClient))"
    "newRequestOk ?E MethodGet (baseURL mockClient @ crumbIssuerPath)"
    "limiterWait ?E (Suc (Suc (waits mockClient)))"
    by (simp_all add: mockEnv_def)
  have r1: "roundTrip ?E (sent mockClient) (newRequest ?E mockClient MethodPost buildPath)
              = Replied \<lparr>StatusCode = 403, Body = []\<rparr>"
    by (simp add: newRequest_def Header_Set_def Let_def mock_defs)
  have r2: "roundTrip ?E (sent mockClient @ [newRequest ?E mockClient MethodPost buildPath])
              (newRequest ?E mockClient MethodGet crumbIssuerPath)
              = Replied \<lparr>StatusCode = 200, Body = crumbBody\<rparr>"
    by (simp add: newRequest_def Header_Set_def Let_def mock_defs)
  have dec: "decodeCrumb ?E (Body \<lparr>StatusCode = 200, Body = crumbBody\<rparr>) = Some (''abc'', ''X-Crumb'')"
    by (simp add: mockEnv_def)
  have ne: "''abc'' \<noteq> []" "''X-Crumb'' \<noteq> []"
    "canonicalKey ?E ''X-Crumb'' \<noteq> canonicalKey ?E ''Accept''"
    by (simp_all add: mockEnv_def)
  have s: "StatusCode \<lparr>StatusCode = 403, Body = []\<rparr> = 403"
    "StatusCode \<lparr>StatusCode = 200, Body = crumbBody\<rparr> = 200"
    by simp_all
  note inst = crumb_cached_and_request_retried_once
    [OF h1 h2(1,2) r1 s(1) h2(3,4) r2 s(2) dec ne h2(5)]
  show ?thesis
    using h1 inst by (simp add: mockEnv_def)
qed

text \<open>
  The success test of \<open>fetchCrumb\<close> is \<open>StatusCode \<noteq> http.StatusOK\<close>: a crumb issuer
  that answers 201 (a 2xx status) with the same body is treated as a failure. Nothing is
  cached, the original request is not retried, and the 403 error is returned.
\<close>

theorem crumb_issuer_2xx_not_200_counterexample:
  "\<not> crumbTested mockClient \<and>
   roundTrip (mockEnv (crumbServer 201)) []
     (newRequest (mockEnv (crumbServer 201)) mockClient MethodPost buildPath)
     = Replied \<lparr>StatusCode = 403, Body = []\<rparr> \<and>
   roundTrip (mockEnv (crumbServer 201))
     [newRequest (mockEnv (crumbServer 201)) mockClient MethodPost buildPath]
     (newRequest (mockEnv (crumbServer 201)) mockClient MethodGet crumbIssuerPath)
     = Replied \<lparr>StatusCode = 201, Body = crumbBody\<rparr> \<and>
   (201 :: int) div 100 = 2 \<and>
   decodeCrumb (mockEnv (crumbServer 201)) crumbBody = Some (''abc'', ''X-Crumb'') \<and>
   snd (doRequest (mockEnv (crumbServer 201)) mockClient MethodPost buildPath)
     = Inl AccessForbidden \<and>
   crumb (fst (doRequest (mockEnv (crumbServer 201)) mockClient MethodPost buildPath)) = [] \<and>
   crumbField (fst (doRequest (mockEnv (crumbServer 201)) mockClient MethodPost buildPath)) = [] \<and>
   map (\<lambda>r. (Method r, URL r))
     (sent (fst (doRequest (mockEnv (crumbServer 201)) mockClient MethodPost buildPath))) =
     [(''POST'', ''http://jenkins/job/demo/build''),
      (''GET'', ''http://jenkins/crumbIssuer/api/json'')]"
  by (simp add: client_eval mock_defs)


section \<open>Dashboard merge: proofs\<close>












text \<open>The sample payloads evaluated: one running build at 50 percent, one recent build.\<close>

lemma sample_running_builds:
  "extractRunningBuilds 2000 sampleNodes =
     [\<lparr>rb_JobName = ''demo #7'', rb_BuildNum = 7, rb_NodeName = ''agent-1'',
       rb_Progress = 50, rb_URL = ''http://jenkins/job/demo/7/''\<rparr>]"
  by (simp add: extractRunningBuilds_def runningOf_def sampleNodes_def GetProgress_def quot_def Let_def)

lemma sample_recent_builds:
  "concat (map recentOf (SortJobsByLastBuild sampleJobs)) =
     [\<lparr>rc_JobName = ''demo'', rc_BuildNum = 6, rc_Result = ''SUCCESS'', rc_Color = ''blue'',
       rc_Timestamp = 500, rc_Duration = 100, rc_URL = ''http://jenkins/job/demo/''\<rparr>]"
  by (simp add: SortJobsByLastBuild_def sampleJobs_def recentOf_def lastBuildTimestamp_def Let_def)


section \<open>Views tab: index safety\<close>

lemma Contains_simps2 [simp]: "Contains s [] = True"
  by (induction s) simp_all

text \<open>
  C10: the list dereferences of the \<open>enter\<close> and \<open>r\<close> handlers are not always in range.
  Three runs from the initial views model that end in the index panic:
  \<^item> \<open>pgdown\<close> before the views have arrived sets \<open>selectedView\<close> to \<open>-1\<close>
    (\<open>minInt(selectedView+pageSize, len(filtered)-1)\<close> with no views); after the views
    arrive, \<open>enter\<close> reads \<open>getFilteredViews()[-1]\<close>;
  \<^item> with two views, \<open>down\<close> selects index 1; typing \<open>l\<close> in the search box narrows
    the filtered list to one view; \<open>enter\<close> closes the box and the next \<open>enter\<close> reads
    \<open>getFilteredViews()[1]\<close>;
  \<^item> with two views, \<open>down\<close> and \<open>enter\<close> open the jobs of view 1; a reload then
    delivers one view only, and \<open>r\<close> reads \<open>views[1]\<close>.
\<close>

theorem views_handlers_index_out_of_range:
  "ViewsModel_run
     [(1, KeyMsg ''pgdown''), (2, viewsMsg sampleViews), (3, KeyMsg ''enter'')]
     (NewViewsModel 80 24) = Inl IndexOutOfRange \<and>
   ViewsModel_run
     [(1, viewsMsg sampleViews), (2, KeyMsg ''down''), (3, KeyMsg ''/''), (4, KeyMsg ''l''),
      (5, KeyMsg ''enter''), (6, KeyMsg ''enter'')]
     (NewViewsModel 80 24) = Inl IndexOutOfRange \<and>
   ViewsModel_run
     [(1, viewsMsg sampleViews), (2, KeyMsg ''down''), (3, KeyMsg ''enter''),
      (4, viewsMsg (take 1 sampleViews)), (5, KeyMsg ''r'')]
     (NewViewsModel 80 24) = Inl IndexOutOfRange"
  by (simp add: NewViewsModel_def viewsMsg_def sampleViews_def ViewsModel_key_def
      ViewsModel_merge_def ViewsModel_pageDown_def ViewsModel_navigateDown_def
      getFilteredViews_def fetchViewJobs_def index_def quot_def minInt_def
      textinput_Update_def ToLower_def lowerByte_def Let_def)

text \<open>
  The states just before the panics: the selection index is outside the list that the
  handler indexes, and the handler's guard (\<open>len(getFilteredViews()) > 0\<close> for
  \<open>enter\<close>, none for \<open>r\<close>) lets it through.
\<close>

lemma views_selection_before_panic:
  "map_sum id (\<lambda>m. (vm_selectedView m, length (getFilteredViews m)))
     (ViewsModel_run [(1, KeyMsg ''pgdown''), (2, viewsMsg sampleViews)] (NewViewsModel 80 24))
     = Inr (- 1, 2)"
  "map_sum id (\<lambda>m. (vm_selectedView m, vm_filter m, map View_Name (getFilteredViews m)))
     (ViewsModel_run
        [(1, viewsMsg sampleViews), (2, KeyMsg ''down''), (3, KeyMsg ''/''), (4, KeyMsg ''l''),
         (5, KeyMsg ''enter'')] (NewViewsModel 80 24))
     = Inr (1, ''l'', [''alpha''])"
  by (simp_all add: NewViewsModel_def viewsMsg_def sampleViews_def ViewsModel_key_def
      ViewsModel_merge_def ViewsModel_pageDown_def ViewsModel_navigateDown_def
      getFilteredViews_def fetchViewJobs_def index_def quot_def minInt_def
      textinput_Update_def ToLower_def lowerByte_def Let_def)


section \<open>Back key: proofs\<close>

text \<open>
  C7, as the code has it. With no search box open, \<open>esc\<close> in a mode that has a level
  above it moves to that level and clears these fields of the mode being exited:
  \<^item> Views, job detail to jobs: \<open>jobDetail\<close>;
  \<^item> Views, jobs to views list: \<open>jobs\<close>, \<open>selectedJob\<close>, \<open>jobsScroll\<close>;
  \<^item> Builds, either log view to build detail: \<open>logContent\<close>, \<open>logFilter\<close>;
  \<^item> Builds, build detail to build list: \<open>buildDetail\<close>, \<open>pipelineRun\<close>;
  \<^item> Builds, build list to job list: \<open>jobDetail\<close>, \<open>builds\<close>, \<open>selectedBuild\<close>,
    \<open>buildsScroll\<close>.

  Every field that does not belong to the mode being exited is unchanged: the result is
  the model before the key with the fields above updated. Nothing is stated about the
  other fields of the mode being exited (the follow flag and search text of the log
  view, the stage selection of the build detail, the build count and page of the build
  list): they are left open by the existential quantifiers.

  With a search box open, \<open>esc\<close> closes that box (the list search box also clears its
  text and the filter) and neither the mode nor any other field changes.
\<close>

theorem back_pops_one_level:
  "(\<not> vm_searching vm \<and> vm_mode vm = ViewsModeJobDetail \<longrightarrow>
      ViewsModel_Update now (KeyMsg ''esc'') vm =
        Inr (vm\<lparr>vm_mode := ViewsModeJobs, vm_jobDetail := None\<rparr>, [])) \<and>
   (\<not> vm_searching vm \<and> vm_mode vm = ViewsModeJobs \<longrightarrow>
      ViewsModel_Update now (KeyMsg ''esc'') vm =
        Inr (vm\<lparr>vm_mode := ViewsModeList, vm_jobs := [], vm_selectedJob := 0,
                vm_jobsScroll := 0\<rparr>, [])) \<and>
   (\<not> bm_searching bm \<and> \<not> bm_logSearching bm \<and>
    (bm_mode bm = ModeLogView \<or> bm_mode bm = ModeStageLogView) \<longrightarrow>
      (\<exists>follow input.
         BuildsModel_Update now (KeyMsg ''esc'') bm =
           Inr (bm\<lparr>bm_mode := ModeBuildDetail, bm_logContent := [], bm_logFilter := [],
                   bm_followLog := follow, bm_logSearchInput := input\<rparr>, []))) \<and>
   (\<not> bm_searching bm \<and> \<not> bm_logSearching bm \<and> bm_mode bm = ModeBuildDetail \<longrightarrow>
      (\<exists>stage.
         BuildsModel_Update now (KeyMsg ''esc'') bm =
           Inr (bm\<lparr>bm_mode := ModeBuildList, bm_buildDetail := None, bm_pipelineRun := None,
                   bm_selectedStage := stage\<rparr>, []))) \<and>
   (\<not> bm_searching bm \<and> \<not> bm_logSearching bm \<and> bm_mode bm = ModeBuildList \<longrightarrow>
      (\<exists>total page.
         BuildsModel_Update now (KeyMsg ''esc'') bm =
           Inr (bm\<lparr>bm_mode := ModeJobList, bm_jobDetail := None, bm_builds := [],
                   bm_selectedBuild := 0, bm_buildsScroll := 0,
                   bm_totalBuilds := total, bm_currentPage := page\<rparr>, []))) \<and>
   (vm_searching vm \<longrightarrow>
      ViewsModel_Update now (KeyMsg ''esc'') vm =
        Inr (vm\<lparr>vm_searching := False, vm_filter := [], vm_searchInput := []\<rparr>, [])) \<and>
   (bm_searching bm \<longrightarrow>
      BuildsModel_Update now (KeyMsg ''esc'') bm =
        Inr (bm\<lparr>bm_searching := False, bm_filter := [], bm_searchInput := []\<rparr>, [])) \<and>
   (\<not> bm_searching bm \<and> bm_logSearching bm \<longrightarrow>
      BuildsModel_Update now (KeyMsg ''esc'') bm = Inr (bm\<lparr>bm_logSearching := False\<rparr>, []))"
proof (intro conjI impI)
  assume "\<not> vm_searching vm \<and> vm_mode vm = ViewsModeJobDetail"
  then show "ViewsModel_Update now (KeyMsg ''esc'') vm =
        Inr (vm\<lparr>vm_mode := ViewsModeJobs, vm_jobDetail := None\<rparr>, [])"
    by (simp add: ViewsModel_key_def ViewsModel_back_def)
next
  assume "\<not> vm_searching vm \<and> vm_mode vm = ViewsModeJobs"
  then show "ViewsModel_Update now (KeyMsg ''esc'') vm =
        Inr (vm\<lparr>vm_mode := ViewsModeList, vm_jobs := [], vm_selectedJob := 0,
                vm_jobsScroll := 0\<rparr>, [])"
    by (simp add: ViewsModel_key_def ViewsModel_back_def)
next
  assume a: "\<not> bm_searching bm \<and> \<not> bm_logSearching bm \<and>
    (bm_mode bm = ModeLogView \<or> bm_mode bm = ModeStageLogView)"
  then have "BuildsModel_Update now (KeyMsg ''esc'') bm =
           Inr (bm\<lparr>bm_mode := ModeBuildDetail, bm_logContent := [], bm_logFilter := [],
                   bm_followLog := bm_followLog bm, bm_logSearchInput := bm_logSearchInput bm\<rparr>, [])"
    by (auto simp: BuildsModel_key_def BuildsModel_back_def)
  then show "\<exists>follow input.
         BuildsModel_Update now (KeyMsg ''esc'') bm =
           Inr (bm\<lparr>bm_mode := ModeBuildDetail, bm_logContent := [], bm_logFilter := [],
                   bm_followLog := follow, bm_logSearchInput := input\<rparr>, [])"
    by blast
next
  assume "\<not> bm_searching bm \<and> \<not> bm_logSearching bm \<and> bm_mode bm = ModeBuildDetail"
  then have "BuildsModel_Update now (KeyMsg ''esc'') bm =
           Inr (bm\<lparr>bm_mode := ModeBuildList, bm_buildDetail := None, bm_pipelineRun := None,
                   bm_selectedStage := bm_selectedStage bm\<rparr>, [])"
    by (simp add: BuildsModel_key_def BuildsModel_back_def)
  then show "\<exists>stage.
         BuildsModel_Update now (KeyMsg ''esc'') bm =
           Inr (bm\<lparr>bm_mode := ModeBuildList, bm_buildDetail := None, bm_pipelineRun := None,
                   bm_selectedStage := stage\<rparr>, [])"
    by blast
next
  assume "\<not> bm_searching bm \<and> \<not> bm_logSearching bm \<and> bm_mode bm = ModeBuildList"
  then have "BuildsModel_Update now (KeyMsg ''esc'') bm =
           Inr (bm\<lparr>bm_mode := ModeJobList, bm_jobDetail := None, bm_builds := [],
                   bm_selectedBuild := 0, bm_buildsScroll := 0,
                   bm_totalBuilds := bm_totalBuilds bm, bm_currentPage := bm_currentPage bm\<rparr>, [])"
    by (simp add: BuildsModel_key_def BuildsModel_back_def)
  then show "\<exists>total page.
         BuildsModel_Update now (KeyMsg ''esc'') bm =
           Inr (bm\<lparr>bm_mode := ModeJobList, bm_jobDetail := None, bm_builds := [],
                   bm_selectedBuild := 0, bm_buildsScroll := 0,
                   bm_totalBuilds := total, bm_currentPage := page\<rparr>, [])"
    by blast
next
  assume "vm_searching vm"
  then show "ViewsModel_Update now (KeyMsg ''esc'') vm =
        Inr (vm\<lparr>vm_searching := False, vm_filter := [], vm_searchInput := []\<rparr>, [])"
    by (simp add: ViewsModel_key_def)
next
  assume "bm_searching bm"
  then show "BuildsModel_Update now (KeyMsg ''esc'') bm =
        Inr (bm\<lparr>bm_searching := False, bm_filter := [], bm_searchInput := []\<rparr>, [])"
    by (simp add: BuildsModel_key_def)
next
  assume "\<not> bm_searching bm \<and> bm_logSearching bm"
  then show "BuildsModel_Update now (KeyMsg ''esc'') bm = Inr (bm\<lparr>bm_logSearching := False\<rparr>, [])"
    by (simp add: BuildsModel_key_def)
qed

lemmas sample_state_defs =
  viewsInJobs_def viewsInJobDetail_def buildsInBuildList_def buildsInBuildDetail_def
  buildsInLogView_def NewViewsModel_def NewBuildsModel_def

theorem back_pops_one_level_witness:
  "\<not> vm_searching viewsInJobDetail \<and> vm_mode viewsInJobDetail = ViewsModeJobDetail \<and>
   ViewsModel_Update 5 (KeyMsg ''esc'') viewsInJobDetail =
     Inr (viewsInJobDetail\<lparr>vm_mode := ViewsModeJobs, vm_jobDetail := None\<rparr>, []) \<and>
   \<not> vm_searching viewsInJobs \<and> vm_mode viewsInJobs = ViewsModeJobs \<and>
   ViewsModel_Update 5 (KeyMsg ''esc'') viewsInJobs =
     Inr (viewsInJobs\<lparr>vm_mode := ViewsModeList, vm_jobs := [], vm_selectedJob := 0,
            vm_jobsScroll := 0\<rparr>, []) \<and>
   \<not> bm_searching buildsInLogView \<and> \<not> bm_logSearching buildsInLogView \<and>
   bm_mode buildsInLogView = ModeLogView \<and>
   (\<exists>follow input.
      BuildsModel_Update 5 (KeyMsg ''esc'') buildsInLogView =
        Inr (buildsInLogView\<lparr>bm_mode := ModeBuildDetail, bm_logContent := [], bm_logFilter := [],
               bm_followLog := follow, bm_logSearchInput := input\<rparr>, [])) \<and>
   \<not> bm_searching buildsInBuildDetail \<and> \<not> bm_logSearching buildsInBuildDetail \<and>
   bm_mode buildsInBuildDetail = ModeBuildDetail \<and>
   (\<exists>stage.
      BuildsModel_Update 5 (KeyMsg ''esc'') buildsInBuildDetail =
        Inr (buildsInBuildDetail\<lparr>bm_mode := ModeBuildList, bm_buildDetail := None,
               bm_pipelineRun := None, bm_selectedStage := stage\<rparr>, [])) \<and>
   \<not> bm_searching buildsInBuildList \<and> \<not> bm_logSearching buildsInBuildList \<and>
   bm_mode buildsInBuildList = ModeBuildList \<and>
   (\<exists>total page.
      BuildsModel_Update 5 (KeyMsg ''esc'') buildsInBuildList =
        Inr (buildsInBuildList\<lparr>bm_mode := ModeJobList, bm_jobDetail := None, bm_builds := [],
               bm_selectedBuild := 0, bm_buildsScroll := 0,
               bm_totalBuilds := total, bm_currentPage := page\<rparr>, [])) \<and>
   vm_searching (viewsInJobs\<lparr>vm_searching := True, vm_searchInput := ''de'', vm_filter := ''de''\<rparr>) \<and>
   ViewsModel_Update 5 (KeyMsg ''esc'')
       (viewsInJobs\<lparr>vm_searching := True, vm_searchInput := ''de'', vm_filter := ''de''\<rparr>) =
     Inr (viewsInJobs\<lparr>vm_searching := True, vm_searchInput := ''de'', vm_filter := ''de''\<rparr>
            \<lparr>vm_searching := False, vm_filter := [], vm_searchInput := []\<rparr>, []) \<and>
   bm_searching (buildsInBuildList\<lparr>bm_searching := True, bm_searchInput := ''de''\<rparr>) \<and>
   BuildsModel_Update 5 (KeyMsg ''esc'')
       (buildsInBuildList\<lparr>bm_searching := True, bm_searchInput := ''de''\<rparr>) =
     Inr (buildsInBuildList\<lparr>bm_searching := True, bm_searchInput := ''de''\<rparr>
            \<lparr>bm_searching := False, bm_filter := [], bm_searchInput := []\<rparr>, []) \<and>
   \<not> bm_searching (buildsInLogView\<lparr>bm_logSearching := True\<rparr>) \<and>
   bm_logSearching (buildsInLogView\<lparr>bm_logSearching := True\<rparr>) \<and>
   BuildsModel_Update 5 (KeyMsg ''esc'') (buildsInLogView\<lparr>bm_logSearching := True\<rparr>) =
     Inr (buildsInLogView\<lparr>bm_logSearching := True\<rparr>\<lparr>bm_logSearching := False\<rparr>, [])"
proof -
  let ?vs = "viewsInJobs\<lparr>vm_searching := True, vm_searchInput := ''de'', vm_filter := ''de''\<rparr>"
  let ?bs = "buildsInBuildList\<lparr>bm_searching := True, bm_searchInput := ''de''\<rparr>"
  let ?bl = "buildsInLogView\<lparr>bm_logSearching := True\<rparr>"
  have v1: "\<not> vm_searching viewsInJobDetail" "vm_mode viewsInJobDetail = ViewsModeJobDetail"
    and v2: "\<not> vm_searching viewsInJobs" "vm_mode viewsInJobs = ViewsModeJobs"
    and b1: "\<not> bm_searching buildsInLogView" "\<not> bm_logSearching buildsInLogView"
      "bm_mode buildsInLogView = ModeLogView"
    and b2: "\<not> bm_searching buildsInBuildDetail" "\<not> bm_logSearching buildsInBuildDetail"
      "bm_mode buildsInBuildDetail = ModeBuildDetail"
    and b3: "\<not> bm_searching buildsInBuildList" "\<not> bm_logSearching buildsInBuildList"
      "bm_mode buildsInBuildList = ModeBuildList"
    and s1: "vm_searching ?vs"
    and s2: "bm_searching ?bs"
    and s3: "\<not> bm_searching ?bl" "bm_logSearching ?bl"
    by (simp_all add: sample_state_defs)
  note i1 = back_pops_one_level [of viewsInJobDetail 5 buildsInLogView]
  note i2 = back_pops_one_level [of viewsInJobs 5 buildsInBuildDetail]
  note i3 = back_pops_one_level [of ?vs 5 buildsInBuildList]
  note i4 = back_pops_one_level [of ?vs 5 ?bs]
  note i5 = back_pops_one_level [of ?vs 5 ?bl]
  have r1: "ViewsModel_Update 5 (KeyMsg ''esc'') viewsInJobDetail =
     Inr (viewsInJobDetail\<lparr>vm_mode := ViewsModeJobs, vm_jobDetail := None\<rparr>, [])"
    using i1 v1 by blast
  have r2: "ViewsModel_Update 5 (KeyMsg ''esc'') viewsInJobs =
     Inr (viewsInJobs\<lparr>vm_mode := ViewsModeList, vm_jobs := [], vm_selectedJob := 0,
            vm_jobsScroll := 0\<rparr>, [])"
    using i2 v2 by blast
  have r3: "\<exists>follow input.
      BuildsModel_Update 5 (KeyMsg ''esc'') buildsInLogView =
        Inr (buildsInLogView\<lparr>bm_mode := ModeBuildDetail, bm_logContent := [], bm_logFilter := [],
               bm_followLog := follow, bm_logSearchInput := input\<rparr>, [])"
    using i1 b1 by blast
  have r4: "\<exists>stage.
      BuildsModel_Update 5 (KeyMsg ''esc'') buildsInBuildDetail =
        Inr (buildsInBuildDetail\<lparr>bm_mode := ModeBuildList, bm_buildDetail := None,
               bm_pipelineRun := None, bm_selectedStage := stage\<rparr>, [])"
    using i2 b2 by blast
  have r5: "\<exists>total page.
      BuildsModel_Update 5 (KeyMsg ''esc'') buildsInBuildList =
        Inr (buildsInBuildList\<lparr>bm_mode := ModeJobList, bm_jobDetail := None, bm_builds := [],
               bm_selectedBuild := 0, bm_buildsScroll := 0,
               bm_totalBuilds := total, bm_currentPage := page\<rparr>, [])"
    using i3 b3 by blast
  have r6: "ViewsModel_Update 5 (KeyMsg ''esc'') ?vs =
     Inr (?vs\<lparr>vm_searching := False, vm_filter := [], vm_searchInput := []\<rparr>, [])"
    using i3 s1 by blast
  have r7: "BuildsModel_Update 5 (KeyMsg ''esc'') ?bs =
     Inr (?bs\<lparr>bm_searching := False, bm_filter := [], bm_searchInput := []\<rparr>, [])"
    using i4 s2 by blast
  have r8: "BuildsModel_Update 5 (KeyMsg ''esc'') ?bl = Inr (?bl\<lparr>bm_logSearching := False\<rparr>, [])"
    using i5 s3 by blast
  show ?thesis
    by (intro conjI) (rule v1 v2 b1 b2 b3 s1 s2 s3 r1 r2 r3 r4 r5 r6 r7 r8)+
qed

text \<open>
  While the search box of the Views tab is open, \<open>esc\<close> closes the box and clears the
  filter: the mode stays \<open>ViewsModeJobs\<close> and the jobs list and its selection stay.
\<close>

theorem back_closes_search_first_counterexample:
  "vm_mode (viewsInJobs\<lparr>vm_searching := True, vm_searchInput := ''de'', vm_filter := ''de''\<rparr>)
     = ViewsModeJobs \<and>
   ViewsModel_Update 5 (KeyMsg ''esc'')
     (viewsInJobs\<lparr>vm_searching := True, vm_searchInput := ''de'', vm_filter := ''de''\<rparr>)
     = Inr (viewsInJobs, []) \<and>
   vm_mode viewsInJobs = ViewsModeJobs \<and>
   vm_jobs viewsInJobs = sampleJobs \<and> sampleJobs \<noteq> [] \<and>
   vm_selectedJob viewsInJobs = 1"
  by (simp add: sample_state_defs ViewsModel_key_def sampleJobs_def)

text \<open>
  The stage selection of the build detail is not reset by any handler. From the build
  detail with stage 1 of two selected: \<open>esc\<close>, \<open>enter\<close> on the build, the detail of a
  build with one stage arrives, and \<open>enter\<close> reads \<open>Stages[1]\<close> of a one-element slice.
\<close>

lemma stale_stage_selection_panics:
  "bm_selectedStage buildsInBuildDetail = 1"
  "map_sum id (\<lambda>m. (bm_mode m, bm_selectedStage m, map_option (length \<circ> PipelineRun_Stages) (bm_pipelineRun m)))
     (BuildsModel_run [(1, KeyMsg ''esc''), (2, KeyMsg ''enter''), (3, oneStageBuildMsg)]
        buildsInBuildDetail)
     = Inr (ModeBuildDetail, 1, Some 1)"
  "BuildsModel_run
     [(1, KeyMsg ''esc''), (2, KeyMsg ''enter''), (3, oneStageBuildMsg), (4, KeyMsg ''enter'')]
     buildsInBuildDetail = Inl IndexOutOfRange"
  by (simp_all add: sample_state_defs sampleJobDetail_def oneStageBuildMsg_def
      BuildsModel_key_def BuildsModel_back_def BuildsModel_enter_def BuildsModel_merge_def
      fetchBuildDetail_def deref_def index_def Let_def)


section \<open>Application controller: proofs\<close>

lemma loadTabData_frame:
  "state (fst (loadTabData m)) = state m"
  "activeTab (fst (loadTabData m)) = activeTab m"
  "autoRefreshEnabled (fst (loadTabData m)) = autoRefreshEnabled m"
  "autoRefreshInterval (fst (loadTabData m)) = autoRefreshInterval m"
  by (simp_all add: loadTabData_def DashboardModel_LoadData_def ViewsModel_LoadData_def
      BuildsModel_LoadData_def split: TabID.splits option.splits)

lemma scheduleAutoRefresh_loadTabData:
  "scheduleAutoRefresh (fst (loadTabData m)) = scheduleAutoRefresh m"
  by (simp add: scheduleAutoRefresh_def loadTabData_frame)

lemma updateActiveTab_state:
  "updateActiveTab t x m = Inr (m', cmds) \<Longrightarrow> state m' = state m"
  by (auto simp: updateActiveTab_def split: TabID.splits option.splits prod.splits sum.splits)

lemma delegate_state:
  "delegate t x cmds0 m = Inr (m', cmds) \<Longrightarrow> state m' = state m"
  by (auto simp: delegate_def dest: updateActiveTab_state
      split: AppState.splits option.splits prod.splits sum.splits)

lemma globalKey_state:
  "globalKey key m = Some (m', cmds) \<Longrightarrow> state m' = StateError \<Longrightarrow> state m = StateError"
  by (auto simp: globalKey_def Let_def loadTabData_frame split: if_splits
      dest!: arg_cong [where f = "\<lambda>r. state (fst r)"])

text \<open>
  C9 fails on the code for intervals whose nanosecond count does not fit 64 bits:
  \<open>time.Duration(AutoRefreshSeconds) * time.Second\<close> wraps around. A configured
  interval of 9223372037 seconds wraps to a negative duration and is replaced by 10
  seconds; a configured interval of -9223372037 seconds wraps to a positive duration of
  9223372036709551616 nanoseconds and is kept.
\<close>

theorem NewModel_refresh_interval_overflow:
  "sint (AutoRefreshSeconds (Profile (refreshConfig 9223372037))) = 9223372037 \<and>
   autoRefreshInterval (NewModel (refreshConfig 9223372037)) = 10 * Second \<and>
   sint (AutoRefreshSeconds (Profile (refreshConfig (- 9223372037)))) = - 9223372037 \<and>
   sint (autoRefreshInterval (NewModel (refreshConfig (- 9223372037)))) = 9223372036709551616"
  by (simp add: NewModel_def refreshConfig_def mockConfig_def DefaultConfig_def Second_def
      IsConfigured_def Let_def)

text \<open>
  What does hold: the interval of \<open>NewModel\<close> is always at least 5 seconds, and for a
  configured number of seconds whose nanosecond count fits 64 bits it is 10 seconds
  when the configured value is below 5 and the configured value otherwise.
\<close>

lemma NewModel_interval:
  "autoRefreshInterval (NewModel cfg) =
     (if sint (AutoRefreshSeconds (Profile cfg) * Second) < sint (5 * Second)
      then 10 * Second else AutoRefreshSeconds (Profile cfg) * Second)"
  by (simp add: NewModel_def Let_def)

lemma NewModel_interval_at_least_5s:
  "5000000000 \<le> sint (autoRefreshInterval (NewModel cfg))"
  by (simp add: NewModel_interval Second_def)

lemma sint_seconds_in_range:
  assumes "- 9223372036 \<le> sint x" and "sint x \<le> 9223372036"
  shows "sint ((x :: 64 word) * Second) = sint x * 1000000000"
proof -
  have "sint (x * Second) = signed_take_bit 63 (sint x * 1000000000)"
    by (simp add: sint_word_ariths Second_def)
  also have "\<dots> = sint x * 1000000000"
    using assms by (intro signed_take_bit_int_eq_self) simp_all
  finally show ?thesis .
qed

lemma NewModel_interval_in_range:
  assumes "- 9223372036 \<le> sint (AutoRefreshSeconds (Profile cfg))"
      and "sint (AutoRefreshSeconds (Profile cfg)) \<le> 9223372036"
  shows "sint (autoRefreshInterval (NewModel cfg)) =
           (if sint (AutoRefreshSeconds (Profile cfg)) < 5 then 10000000000
            else sint (AutoRefreshSeconds (Profile cfg)) * 1000000000)"
  using sint_seconds_in_range [OF assms]
  by (simp add: NewModel_interval) (simp add: Second_def)


lemma tab_data_message_in_ready:
  assumes "state m = StateReady"
  shows "Model_Update w (DashboardDataMsg d) m =
           Inr (if activeTab m = TabDashboard
                then m\<lparr>dashboardModel :=
                         map_option (DashboardModel_merge (clock w) d) (dashboardModel m)\<rparr>
                else m, [])"
    and "Model_Update w (ViewsDataMsg v) m =
           Inr (if activeTab m = TabViews
                then m\<lparr>viewsModel := map_option (ViewsModel_merge (clock w) v) (viewsModel m)\<rparr>
                else m, [])"
    and "Model_Update w (BuildsDataMsg b) m =
           Inr (if activeTab m = TabBuilds
                then m\<lparr>buildsModel := map_option (BuildsModel_merge (clock w) b) (buildsModel m)\<rparr>
                else m, [])"
  using assms
  by (cases "activeTab m"; cases "dashboardModel m"; cases "viewsModel m"; cases "buildsModel m";
      simp add: Model_Update_def delegate_def updateActiveTab_def)+

text \<open>
  C3, as the code has it. \<open>Model.Update\<close> hands a tab data message to the update of the
  active tab only (\<open>updateActiveTab\<close>), and each tab's update has a case for its own
  message type only. So in the Ready state a data message is merged into the model of
  its tab when that tab is active, and is dropped, changing nothing, when another tab is
  active; in neither case does it change another tab's model.
\<close>

theorem tab_message_merged_only_when_its_tab_is_active:
  assumes "state m = StateReady"
  shows "Model_Update w (DashboardDataMsg d) m =
           Inr (if activeTab m = TabDashboard
                then m\<lparr>dashboardModel :=
                         map_option (DashboardModel_merge (clock w) d) (dashboardModel m)\<rparr>
                else m, []) \<and>
         Model_Update w (ViewsDataMsg v) m =
           Inr (if activeTab m = TabViews
                then m\<lparr>viewsModel := map_option (ViewsModel_merge (clock w) v) (viewsModel m)\<rparr>
                else m, []) \<and>
         Model_Update w (BuildsDataMsg b) m =
           Inr (if activeTab m = TabBuilds
                then m\<lparr>buildsModel := map_option (BuildsModel_merge (clock w) b) (buildsModel m)\<rparr>
                else m, [])"
  by (intro conjI) (rule tab_data_message_in_ready [OF assms])+

lemma readyModel_fields:
  "state readyModel = StateReady"
  "activeTab readyModel = TabDashboard"
  "autoRefreshEnabled readyModel"
  "autoRefreshInterval readyModel = 10 * Second"
  "dashboardModel readyModel = Some (NewDashboardModel 80 24)"
  "viewsModel readyModel = Some (NewViewsModel 80 24)"
  "buildsModel readyModel = Some (NewBuildsModel 80 24)"
  by (simp_all add: readyModel_def initTabModels_def NewModel_def mockConfig_def
      DefaultConfig_def IsConfigured_def Second_def Let_def)

theorem tab_message_merged_only_when_its_tab_is_active_witness:
  "state readyModel = StateReady \<and> activeTab readyModel = TabDashboard \<and>
   Model_Update sampleWorld (DashboardDataMsg (queueMsg sampleQueue None)) readyModel =
     Inr (readyModel\<lparr>dashboardModel :=
            Some (DashboardModel_merge 1000 (queueMsg sampleQueue None) (NewDashboardModel 80 24))\<rparr>, []) \<and>
   Model_Update sampleWorld (ViewsDataMsg (errorOnlyViewsData ''timeout'')) readyModel =
     Inr (readyModel, [])"
proof -
  note inst = tab_message_merged_only_when_its_tab_is_active [OF readyModel_fields(1),
      of sampleWorld "queueMsg sampleQueue None" "errorOnlyViewsData ''timeout''"]
  have clock: "clock sampleWorld = 1000"
    by (simp add: sampleWorld_def)
  have r1: "Model_Update sampleWorld (DashboardDataMsg (queueMsg sampleQueue None)) readyModel =
     Inr (readyModel\<lparr>dashboardModel :=
            Some (DashboardModel_merge 1000 (queueMsg sampleQueue None) (NewDashboardModel 80 24))\<rparr>, [])"
    using inst by (simp add: readyModel_fields clock)
  have r2: "Model_Update sampleWorld (ViewsDataMsg (errorOnlyViewsData ''timeout'')) readyModel =
     Inr (readyModel, [])"
    using inst by (simp add: readyModel_fields)
  show ?thesis
    by (intro conjI) (rule readyModel_fields(1,2) r1 r2)+
qed

text \<open>
  The payload of a dashboard message processed while the Views tab is active is lost:
  the dashboard model keeps no queue, and no later message brings it.
\<close>

theorem message_for_inactive_tab_dropped_counterexample:
  "state (readyModel\<lparr>activeTab := TabViews\<rparr>) = StateReady \<and>
   dd_Queue (queueMsg sampleQueue None) = Some sampleQueue \<and>
   Model_Update sampleWorld (DashboardDataMsg (queueMsg sampleQueue None))
     (readyModel\<lparr>activeTab := TabViews\<rparr>) = Inr (readyModel\<lparr>activeTab := TabViews\<rparr>, []) \<and>
   map_option dm_queue (dashboardModel (readyModel\<lparr>activeTab := TabViews\<rparr>)) = Some None"
  by (simp add: readyModel_fields queueMsg_def Model_Update_def delegate_def updateActiveTab_def
      NewDashboardModel_def)


text \<open>
  C4, as the code has it. In the Ready state a tab data message that carries an error
  and no payload, processed while its tab is the active tab, sets that tab's \<open>lastError\<close>,
  clears \<open>loading\<close>, stamps \<open>lastUpdate\<close> and changes nothing else (first three parts).
  Any tab data message leaves the state Ready (fourth part). The state becomes Error,
  from any other state, only on a \<open>ClientErrorMsg\<close> or on a \<open>SetupCompleteMsg\<close> whose
  configuration cannot be saved (last part).
\<close>

theorem ready_fetch_error_recorded_in_active_tab:
  "(state m = StateReady \<and> activeTab m = TabDashboard \<and> dashboardModel m = Some dm \<and>
    dd_Error d = Some e \<and> dd_RootInfo d = None \<and> dd_Nodes d = None \<and> dd_Queue d = None \<and>
    dd_Jobs d = None \<longrightarrow>
      Model_Update w (DashboardDataMsg d) m =
        Inr (m\<lparr>dashboardModel := Some (dm\<lparr>dm_loading := False, dm_lastUpdate := Some (clock w),
                                            dm_lastError := Some e\<rparr>)\<rparr>, [])) \<and>
   (state m = StateReady \<and> activeTab m = TabViews \<and> viewsModel m = Some vm \<and>
    vd_Error v = Some e \<and> vd_Views v = None \<and> vd_Jobs v = None \<and> vd_JobDetail v = None \<longrightarrow>
      Model_Update w (ViewsDataMsg v) m =
        Inr (m\<lparr>viewsModel := Some (vm\<lparr>vm_loading := False, vm_lastUpdate := Some (clock w),
                                        vm_lastError := Some e\<rparr>)\<rparr>, [])) \<and>
   (state m = StateReady \<and> activeTab m = TabBuilds \<and> buildsModel m = Some bm \<and>
    bd_Error b = Some e \<and> bd_Jobs b = None \<and> bd_JobDetail b = None \<and> bd_BuildDetail b = None \<and>
    bd_PipelineRun b = None \<and> bd_LogContent b = [] \<longrightarrow>
      Model_Update w (BuildsDataMsg b) m =
        Inr (m\<lparr>buildsModel := Some (bm\<lparr>bm_loading := False, bm_lastUpdate := Some (clock w),
                                         bm_lastError := Some e\<rparr>)\<rparr>, [])) \<and>
   (state m = StateReady \<and> (x = DashboardDataMsg d \<or> x = ViewsDataMsg v \<or> x = BuildsDataMsg b) \<longrightarrow>
      (\<exists>m'. Model_Update w x m = Inr (m', []) \<and> state m' = StateReady)) \<and>
   (Model_Update w x m = Inr (m', cmds) \<and> state m' = StateError \<and> state m \<noteq> StateError \<longrightarrow>
      (\<exists>e'. x = ClientErrorMsg e') \<or>
      (\<exists>cfg e'. x = SetupCompleteMsg cfg \<and> configSave w cfg = Some e'))"
proof (intro conjI impI)
  assume "state m = StateReady \<and> activeTab m = TabDashboard \<and> dashboardModel m = Some dm \<and>
    dd_Error d = Some e \<and> dd_RootInfo d = None \<and> dd_Nodes d = None \<and> dd_Queue d = None \<and>
    dd_Jobs d = None"
  then show "Model_Update w (DashboardDataMsg d) m =
        Inr (m\<lparr>dashboardModel := Some (dm\<lparr>dm_loading := False, dm_lastUpdate := Some (clock w),
                                            dm_lastError := Some e\<rparr>)\<rparr>, [])"
    by (simp add: tab_data_message_in_ready(1) DashboardModel_merge_def)
next
  assume "state m = StateReady \<and> activeTab m = TabViews \<and> viewsModel m = Some vm \<and>
    vd_Error v = Some e \<and> vd_Views v = None \<and> vd_Jobs v = None \<and> vd_JobDetail v = None"
  then show "Model_Update w (ViewsDataMsg v) m =
        Inr (m\<lparr>viewsModel := Some (vm\<lparr>vm_loading := False, vm_lastUpdate := Some (clock w),
                                        vm_lastError := Some e\<rparr>)\<rparr>, [])"
    by (simp add: tab_data_message_in_ready(2) ViewsModel_merge_def)
next
  assume "state m = StateReady \<and> activeTab m = TabBuilds \<and> buildsModel m = Some bm \<and>
    bd_Error b = Some e \<and> bd_Jobs b = None \<and> bd_JobDetail b = None \<and> bd_BuildDetail b = None \<and>
    bd_PipelineRun b = None \<and> bd_LogContent b = []"
  then show "Model_Update w (BuildsDataMsg b) m =
        Inr (m\<lparr>buildsModel := Some (bm\<lparr>bm_loading := False, bm_lastUpdate := Some (clock w),
                                         bm_lastError := Some e\<rparr>)\<rparr>, [])"
    by (simp add: tab_data_message_in_ready(3) BuildsModel_merge_def)
next
  assume "state m = StateReady \<and> (x = DashboardDataMsg d \<or> x = ViewsDataMsg v \<or> x = BuildsDataMsg b)"
  then show "\<exists>m'. Model_Update w x m = Inr (m', []) \<and> state m' = StateReady"
    by (auto simp: tab_data_message_in_ready)
next
  assume a: "Model_Update w x m = Inr (m', cmds) \<and> state m' = StateError \<and> state m \<noteq> StateError"
  show "(\<exists>e'. x = ClientErrorMsg e') \<or>
        (\<exists>cfg e'. x = SetupCompleteMsg cfg \<and> configSave w cfg = Some e')"
  proof (cases x)
    case (KeyMsg key)
    then show ?thesis
      using a
      by (auto simp: Model_Update_def split: option.splits
          dest: globalKey_state delegate_state)
  next
    case (SetupCompleteMsg cfg)
    then show ?thesis
      using a by (auto simp: Model_Update_def Let_def split: option.splits)
  next
    case (ClientReadyMsg c)
    then show ?thesis
      using a loadTabData_frame(1) [of "initTabModels (m\<lparr>client := Some c, state := StateReady\<rparr>)"]
      by (auto simp: Model_Update_def Let_def initTabModels_def split: prod.splits)
  next
    case AutoRefreshTickMsg
    then show ?thesis
      using a loadTabData_frame(1) [of m]
      by (auto simp: Model_Update_def split: prod.splits if_splits)
  qed (use a in \<open>auto simp: Model_Update_def setSizes_def dest: delegate_state\<close>)
qed


theorem ready_fetch_error_recorded_in_active_tab_witness:
  "state readyModel = StateReady \<and> activeTab readyModel = TabDashboard \<and>
   dashboardModel readyModel = Some (NewDashboardModel 80 24) \<and>
   dd_Error (errorOnlyDashboardData ''timeout'') = Some ''timeout'' \<and>
   Model_Update sampleWorld (DashboardDataMsg (errorOnlyDashboardData ''timeout'')) readyModel =
     Inr (readyModel\<lparr>dashboardModel :=
            Some ((NewDashboardModel 80 24)\<lparr>dm_loading := False, dm_lastUpdate := Some 1000,
                     dm_lastError := Some ''timeout''\<rparr>)\<rparr>, []) \<and>
   Model_Update sampleWorld (ClientErrorMsg ''connection refused'') ((NewModel mockConfig)) =
     Inr ((NewModel mockConfig)\<lparr>lastError := Some ''connection refused'', state := StateError\<rparr>, []) \<and>
   state (NewModel mockConfig) = StateLoading"
proof -
  let ?d = "errorOnlyDashboardData ''timeout''"
  have d: "dd_Error ?d = Some ''timeout''" "dd_RootInfo ?d = None" "dd_Nodes ?d = None"
    "dd_Queue ?d = None" "dd_Jobs ?d = None"
    by (simp_all add: errorOnlyDashboardData_def)
  have clock: "clock sampleWorld = 1000"
    by (simp add: sampleWorld_def)
  note inst = ready_fetch_error_recorded_in_active_tab
    [of readyModel "NewDashboardModel 80 24" ?d "''timeout''" sampleWorld]
  have r1: "Model_Update sampleWorld (DashboardDataMsg ?d) readyModel =
     Inr (readyModel\<lparr>dashboardModel :=
            Some ((NewDashboardModel 80 24)\<lparr>dm_loading := False, dm_lastUpdate := Some 1000,
                     dm_lastError := Some ''timeout''\<rparr>)\<rparr>, [])"
    using inst readyModel_fields(1,2,5) d clock by simp
  have r2: "Model_Update sampleWorld (ClientErrorMsg ''connection refused'') (NewModel mockConfig) =
     Inr ((NewModel mockConfig)\<lparr>lastError := Some ''connection refused'', state := StateError\<rparr>, [])"
    by (simp add: Model_Update_def)
  have r3: "state (NewModel mockConfig) = StateLoading"
    by (simp add: NewModel_def mockConfig_def DefaultConfig_def IsConfigured_def Let_def)
  show ?thesis
    by (intro conjI) (rule readyModel_fields(1,2,5) d(1) r1 r2 r3)+
qed

text \<open>
  The error of a Views fetch that arrives while the dashboard is the active tab is not
  recorded in the Views model: the message is dropped.
\<close>

theorem error_for_inactive_tab_not_recorded_counterexample:
  "state readyModel = StateReady \<and>
   vd_Error (errorOnlyViewsData ''timeout'') = Some ''timeout'' \<and>
   Model_Update sampleWorld (ViewsDataMsg (errorOnlyViewsData ''timeout'')) readyModel =
     Inr (readyModel, []) \<and>
   map_option vm_lastError (viewsModel readyModel) = Some None"
  by (simp add: readyModel_fields errorOnlyViewsData_def Model_Update_def delegate_def
      updateActiveTab_def NewViewsModel_def)

text \<open>
  A failed root info fetch: its message carries the error and the zero-valued root
  info, and the merge stores both, replacing the root info fetched before.
\<close>

lemma failed_root_info_fetch_overwrites:
  "dm_rootInfo (DashboardModel_merge 2000 (failedRootInfoMsg ''timeout'')
      ((NewDashboardModel 80 24)\<lparr>dm_rootInfo := Some sampleRootInfo\<rparr>)) = Some zeroRootInfo"
  "dm_lastError (DashboardModel_merge 2000 (failedRootInfoMsg ''timeout'')
      ((NewDashboardModel 80 24)\<lparr>dm_rootInfo := Some sampleRootInfo\<rparr>)) = Some ''timeout''"
  "zeroRootInfo \<noteq> sampleRootInfo"
  by (simp_all add: DashboardModel_merge_def failedRootInfoMsg_def rootInfoMsg_def
      NewDashboardModel_def zeroRootInfo_def sampleRootInfo_def)

lemma Model_Update_tick:
  "Model_Update w AutoRefreshTickMsg m =
     (if state m = StateReady \<and> autoRefreshEnabled m
      then Inr (fst (loadTabData m), snd (loadTabData m) @ scheduleAutoRefresh m)
      else Inr (m, []))"
  by (simp add: Model_Update_def case_prod_beta scheduleAutoRefresh_loadTabData)

text \<open>
  C6, as the code has it. A tick handled in the Ready state with auto-refresh enabled
  returns one batch: the load commands of the active tab and, when the interval is
  positive, a new timer for the interval. The batch is started as a whole, so the next
  tick is due one interval after the batch is started, whatever the load commands take.
  Outside the Ready state or with auto-refresh disabled, a tick returns nothing and the
  timer is not re-armed.
\<close>

theorem tick_rearms_timer_with_the_dispatch:
  "(state m = StateReady \<and> autoRefreshEnabled m \<and> 0 < sint (autoRefreshInterval m) \<longrightarrow>
      Model_Update w AutoRefreshTickMsg m =
        Inr (fst (loadTabData m), snd (loadTabData m) @ [Tick (autoRefreshInterval m)]) \<and>
      deliveries t latency (snd (loadTabData m) @ [Tick (autoRefreshInterval m)]) =
        deliveries t latency (snd (loadTabData m)) @
        [(t + sint (autoRefreshInterval m), Tick (autoRefreshInterval m))]) \<and>
   (state m \<noteq> StateReady \<or> \<not> autoRefreshEnabled m \<longrightarrow>
      Model_Update w AutoRefreshTickMsg m = Inr (m, []))"
  by (auto simp: Model_Update_tick scheduleAutoRefresh_def deliveries_def deliveryTime_def)

theorem tick_rearms_timer_with_the_dispatch_witness:
  "state readyModel = StateReady \<and> autoRefreshEnabled readyModel \<and>
   0 < sint (autoRefreshInterval readyModel) \<and>
   Model_Update sampleWorld AutoRefreshTickMsg readyModel =
     Inr (fst (loadTabData readyModel),
          snd (loadTabData readyModel) @ [Tick (autoRefreshInterval readyModel)]) \<and>
   deliveries 0 (\<lambda>c. 15000000000)
       (snd (loadTabData readyModel) @ [Tick (autoRefreshInterval readyModel)]) =
     deliveries 0 (\<lambda>c. 15000000000) (snd (loadTabData readyModel)) @
     [(0 + sint (autoRefreshInterval readyModel), Tick (autoRefreshInterval readyModel))] \<and>
   state (NewModel mockConfig) \<noteq> StateReady \<and>
   Model_Update sampleWorld AutoRefreshTickMsg (NewModel mockConfig) = Inr (NewModel mockConfig, [])"
proof -
  have pos: "0 < sint (autoRefreshInterval readyModel)"
    by (simp add: readyModel_fields Second_def)
  have loading: "state (NewModel mockConfig) \<noteq> StateReady"
    by (simp add: NewModel_def mockConfig_def DefaultConfig_def IsConfigured_def Let_def)
  note i1 = tick_rearms_timer_with_the_dispatch
    [of readyModel sampleWorld 0 "\<lambda>c. 15000000000"]
  note i2 = tick_rearms_timer_with_the_dispatch [of "NewModel mockConfig" sampleWorld]
  have r1: "Model_Update sampleWorld AutoRefreshTickMsg readyModel =
     Inr (fst (loadTabData readyModel),
          snd (loadTabData readyModel) @ [Tick (autoRefreshInterval readyModel)])"
    and r2: "deliveries 0 (\<lambda>c. 15000000000)
       (snd (loadTabData readyModel) @ [Tick (autoRefreshInterval readyModel)]) =
     deliveries 0 (\<lambda>c. 15000000000) (snd (loadTabData readyModel)) @
     [(0 + sint (autoRefreshInterval readyModel), Tick (autoRefreshInterval readyModel))]"
    using i1 readyModel_fields(1,3) pos by blast+
  have r3: "Model_Update sampleWorld AutoRefreshTickMsg (NewModel mockConfig) = Inr (NewModel mockConfig, [])"
    using i2 loading by blast
  show ?thesis
    by (intro conjI) (rule readyModel_fields(1,3) pos r1 r2 loading r3)+
qed

text \<open>
  Scenario E of the specification on the code: interval 10 seconds, the tick handled at
  time 0, every load command taking 15 seconds. The batch holds the five dashboard load
  commands and the timer; the next tick is due at 10 seconds, before the load commands
  deliver at 15 seconds, and not at 15 seconds.
\<close>

theorem next_tick_due_after_interval_counterexample:
  "state readyModel = StateReady \<and> autoRefreshEnabled readyModel \<and>
   autoRefreshInterval readyModel = 10 * Second \<and>
   map_sum id (\<lambda>(m, cmds). deliveries 0 (\<lambda>c. 15 * 1000000000) cmds)
     (Model_Update sampleWorld AutoRefreshTickMsg readyModel) =
     Inr [(15000000000, DashboardFetchRootInfo), (15000000000, DashboardFetchNodes),
          (15000000000, DashboardFetchQueue), (15000000000, DashboardFetchJobs),
          (15000000000, SpinnerTick), (10000000000, Tick (10 * Second))]"
  by (simp add: readyModel_fields Model_Update_tick loadTabData_def DashboardModel_LoadData_def
      scheduleAutoRefresh_def deliveries_def deliveryTime_def Second_def)


end
